theory Spec2Isabelle
  imports Main
begin

section \<open>Shared vocabulary\<close>

text \<open>
  Timestamps are opaque clock readings. Every operation that reads the clock
  (\<^verbatim>\<open>datetime.now(timezone.utc)\<close>, \<^verbatim>\<open>datetime.utcnow()\<close>) takes the reading as its
  first argument \<open>now\<close>.
\<close>

type_synonym datetime = nat

type_synonym uuid = string

text \<open>
  Error codes of \<^verbatim>\<open>PayoutErrorCode\<close> that \<^verbatim>\<open>submit_transfer.py\<close> raises. Every
  \<^verbatim>\<open>PayoutError\<close> of that file is built with \<^verbatim>\<open>HTTP_400_BAD_REQUEST\<close> and
  \<^verbatim>\<open>retryable=False\<close>, so the model keeps the code only.
\<close>

datatype payout_error_code =
    TRANSFER_NOT_FOUND
  | INVALID_PAYMENT_ACCOUNT_ID
  | MISMATCHED_TRANSFER_AMOUNT
  | TRANSFER_INVALID_STATE
  | TRANSFER_ALREADY_DELETED
  | DUPLICATE_TRANSFER
  | TRANSFER_DISABLED_ERROR
  | DUMMY_TRANSFER_CREATION_FAILED
  | TRANSFER_PROCESSING
  | INVALID_STRIPE_ACCOUNT_ID
  | MISMATCHED_TRANSFER_PAYMENT_ACCOUNT
  | DUPLICATE_STRIPE_TRANSFER
  | INVALID_STRIPE_ACCOUNT
  | UNSUPPORTED_COUNTRY
  | STRIPE_PAYOUT_ACCT_MISSING
  | STRIPE_PAYOUT_DISALLOWED
  | STRIPE_INVALID_REQUEST_ERROR
  | STRIPE_SUBMISSION_ERROR

text \<open>
  Error codes and types of the gateway as \<^verbatim>\<open>StripeErrorCode\<close> names them, with
  \<^verbatim>\<open>UNKNOWN_ERROR_STR\<close>. The enumeration is declared in \<^verbatim>\<open>app.payout.types\<close>,
  which is not part of the sources; \<open>Other_code\<close> carries any other text, different from
  the named members, and \<open>Other_code []\<close> is the empty string.
\<close>

datatype stripe_error_code =
    NO_EXT_ACCOUNT_IN_CURRENCY
  | PAYOUT_NOT_ALLOWED
  | INVALID_REQUEST_ERROR
  | UNKNOWN_ERROR_STR
  | Other_code string

text \<open>
  Python text is a sequence of code points; the message of a gateway error is kept as
  such, since the pattern it is matched against distinguishes code points.
\<close>

type_synonym code_points = "nat list"

text \<open>
  A gateway error as the processor reads it. \<^verbatim>\<open>e.json_body\<close> is \<^verbatim>\<open>None\<close> (an error
  raised without a response of the gateway, such as a connection error) or a dictionary;
  of the dictionary the processor reads \<^verbatim>\<open>json_body.get("error", {})\<close> and there the
  \<^verbatim>\<open>type\<close>, \<^verbatim>\<open>code\<close> and \<^verbatim>\<open>message\<close> entries, each possibly absent (a body
  without an \<^verbatim>\<open>"error"\<close> entry reads as the empty dictionary, all three absent).
  \<^verbatim>\<open>e.request_id\<close> is on the error itself.
\<close>

record stripe_error_info =
  ei_type :: "stripe_error_code option"
  ei_code :: "stripe_error_code option"
  ei_message :: "code_points option"

record stripe_error =
  se_json_body :: "stripe_error_info option"
  se_request_id :: "string option"

text \<open>
  Exceptions. \<open>OtherException\<close> stands for any exception that is neither a
  \<^verbatim>\<open>PayoutError\<close> nor a \<^verbatim>\<open>StripeError\<close> and that a collaborator may raise (network
  failure, driver error); all are subclasses of \<^verbatim>\<open>Exception\<close>.
\<close>

datatype exn =
    PayoutError payout_error_code
  | StripeError stripe_error
  | PaymentIntentCouldNotBeUpdatedError
  | ValueError
  | TypeError
  | AttributeError
  | AssertionError
  | ValidationError
  | OtherException string

section \<open>Cart payment repository (\<^verbatim>\<open>cart_payment_repo.py\<close>)\<close>

subsection \<open>Rows and the SQL statements the repository issues\<close>

text \<open>
  The status columns hold text; the repository's signatures take \<^verbatim>\<open>str\<close>. The entity
  constructors copy the columns of a row, and a row stands for its entity. Subscripting
  \<^verbatim>\<open>None\<close> in them raises \<^verbatim>\<open>TypeError\<close>. \<^verbatim>\<open>to_payment_intent\<close> converts the
  status text with \<^verbatim>\<open>IntentStatus(...)\<close>, which raises \<^verbatim>\<open>ValueError\<close> on a text that
  is not a value of the enumeration. \<^verbatim>\<open>IntentStatus\<close> is declared in
  \<^verbatim>\<open>app.payin.core.cart_payment.types\<close>, which is not part of the sources: the list of
  its values is the parameter \<open>intent_statuses\<close> of every function that converts.
\<close>

record payment_intent =
  pi_id :: uuid
  pi_cart_payment_id :: uuid
  pi_idempotency_key :: string
  pi_amount :: int
  pi_status :: string
  pi_updated_at :: "datetime option"
  pi_captured_at :: "datetime option"

record pgp_payment_intent =
  pgpi_id :: uuid
  pgpi_payment_intent_id :: uuid
  pgpi_amount :: int
  pgpi_status :: string
  pgpi_updated_at :: "datetime option"

record payment_intent_adjustment_history =
  pah_id :: uuid
  pah_payer_id :: "uuid option"
  pah_payment_intent_id :: uuid
  pah_amount :: int
  pah_amount_original :: int
  pah_amount_delta :: int
  pah_currency :: string
  pah_idempotency_key :: string

record payment_database =
  payment_intents :: "payment_intent list"
  pgp_payment_intents :: "pgp_payment_intent list"
  payment_intents_adjustment_history :: "payment_intent_adjustment_history list"

text \<open>
  \<^verbatim>\<open>table.update().where(p).values(f).returning(...)\<close>: every row that satisfies the
  predicate is rewritten, and the rewritten rows are the result set.
\<close>

definition update_where :: "('r \<Rightarrow> bool) \<Rightarrow> ('r \<Rightarrow> 'r) \<Rightarrow> 'r list \<Rightarrow> 'r list" where
  "update_where p f rows = map (\<lambda>r. if p r then f r else r) rows"

definition returning :: "('r \<Rightarrow> bool) \<Rightarrow> ('r \<Rightarrow> 'r) \<Rightarrow> 'r list \<Rightarrow> 'r list" where
  "returning p f rows = map f (filter p rows)"

text \<open>\<^verbatim>\<open>fetch_one\<close>: the first row of the result set, or \<^verbatim>\<open>None\<close>.\<close>

definition fetch_one :: "'r list \<Rightarrow> 'r option" where
  "fetch_one rs = (case rs of [] \<Rightarrow> None | r # _ \<Rightarrow> Some r)"

subsection \<open>Payment intent updates\<close>

definition to_payment_intent ::
  "string list \<Rightarrow> payment_intent option \<Rightarrow> exn + payment_intent" where
  "to_payment_intent intent_statuses row =
     (case row of
        None \<Rightarrow> Inl TypeError
      | Some r \<Rightarrow> if pi_status r \<in> set intent_statuses then Inr r else Inl ValueError)"

definition update_payment_intent_status ::
  "string list \<Rightarrow> datetime \<Rightarrow> payment_database \<Rightarrow> uuid \<Rightarrow> string \<Rightarrow> string
     \<Rightarrow> (exn + payment_intent) \<times> payment_database" where
  "update_payment_intent_status intent_statuses now db ident new_status previous_status =
     (let p = (\<lambda>r. pi_id r = ident \<and> pi_status r = previous_status);
          f = (\<lambda>r. r\<lparr>pi_status := new_status, pi_updated_at := Some now\<rparr>);
          row = fetch_one (returning p f (payment_intents db));
          db' = db\<lparr>payment_intents := update_where p f (payment_intents db)\<rparr>
      in case row of
           None \<Rightarrow> (Inl PaymentIntentCouldNotBeUpdatedError, db')
         | Some r \<Rightarrow> (to_payment_intent intent_statuses (Some r), db'))"

definition update_payment_intent_capture_state ::
  "string list \<Rightarrow> datetime \<Rightarrow> payment_database \<Rightarrow> uuid \<Rightarrow> string \<Rightarrow> datetime
     \<Rightarrow> (exn + payment_intent) \<times> payment_database" where
  "update_payment_intent_capture_state intent_statuses now db ident status captured_at =
     (let p = (\<lambda>r. pi_id r = ident);
          f = (\<lambda>r. r\<lparr>pi_status := status, pi_captured_at := Some captured_at,
                       pi_updated_at := Some now\<rparr>);
          row = fetch_one (returning p f (payment_intents db));
          db' = db\<lparr>payment_intents := update_where p f (payment_intents db)\<rparr>
      in (to_payment_intent intent_statuses row, db'))"



subsection \<open>The combined status update\<close>




subsection \<open>Adjustment history\<close>




subsection \<open>Sample rows\<close>

definition sample_payment_intent :: payment_intent where
  "sample_payment_intent =
     \<lparr>pi_id = ''pi_1'', pi_cart_payment_id = ''cart_1'', pi_idempotency_key = ''key_1'',
      pi_amount = 500, pi_status = ''requires_capture'', pi_updated_at = None,
      pi_captured_at = None\<rparr>"

definition sample_pgp_payment_intent :: pgp_payment_intent where
  "sample_pgp_payment_intent =
     \<lparr>pgpi_id = ''pgp_1'', pgpi_payment_intent_id = ''pi_1'', pgpi_amount = 500,
      pgpi_status = ''requires_capture'', pgpi_updated_at = None\<rparr>"

definition sample_payment_database :: payment_database where
  "sample_payment_database =
     \<lparr>payment_intents = [sample_payment_intent],
      pgp_payment_intents = [sample_pgp_payment_intent],
      payment_intents_adjustment_history = []\<rparr>"

text \<open>A store where the gateway-side row has lost its platform-side row.\<close>

definition orphan_payment_database :: payment_database where
  "orphan_payment_database =
     \<lparr>payment_intents = [],
      pgp_payment_intents = [sample_pgp_payment_intent],
      payment_intents_adjustment_history = []\<rparr>"

text \<open>The same store after the intent was cancelled.\<close>

definition cancelled_payment_database :: payment_database where
  "cancelled_payment_database =
     \<lparr>payment_intents = [sample_payment_intent\<lparr>pi_status := ''cancelled''\<rparr>],
      pgp_payment_intents = [sample_pgp_payment_intent\<lparr>pgpi_status := ''cancelled''\<rparr>],
      payment_intents_adjustment_history = []\<rparr>"

text \<open>
  The members of \<^verbatim>\<open>IntentStatus\<close> that the spec names, as lower-case texts, for the
  sample runs.
\<close>

definition sample_intent_statuses :: "string list" where
  "sample_intent_statuses =
     [''requires_capture'', ''capturing'', ''succeeded'', ''cancelled'', ''failed'']"

section \<open>Transfer submission (\<^verbatim>\<open>submit_transfer.py\<close>)\<close>

subsection \<open>Enumerations and rows\<close>

text \<open>
  The enumerations of \<^verbatim>\<open>app.payout.types\<close> are declared in a module that is not
  part of the sources; each is a datatype with the members the processor names.
  \<open>Other_method\<close> and \<open>Other_account_type\<close> carry any other text, different
  from the named members.
\<close>

datatype transfer_status_type = NEW | PENDING | PAID | FAILED | ERROR

datatype transfer_status_code_type =
    ERROR_AMOUNT_MISMATCH
  | ERROR_INVALID_STATE
  | ERROR_NO_GATEWAY_ACCOUNT
  | ERROR_ACCOUNT_ID_MISMATCH
  | ERROR_SUBMISSION
  | UNKNOWN_ERROR

text \<open>
  The \<^verbatim>\<open>status_code\<close> column receives members of \<^verbatim>\<open>TransferStatusCodeType\<close> and, on
  the failed-submission path, the \<^verbatim>\<open>error_code\<close> of the caught \<^verbatim>\<open>PayoutError\<close>.
\<close>

datatype status_code =
    Transfer_status_code transfer_status_code_type
  | Payout_error_code payout_error_code

datatype transfer_method_type = STRIPE | DOORDASH_PAY | COD_INVOICE | Other_method string

datatype account_type = ACCOUNT_TYPE_STRIPE_MANAGED_ACCOUNT | Other_account_type string

datatype payout_account_target_type = DASHER | STORE

datatype stripe_transfer_submission_status = SUBMITTING | SUBMITTED | FAILED_TO_SUBMIT

record transfer =
  tr_id :: int
  tr_payment_account_id :: "int option"
  tr_amount :: int
  tr_currency :: "string option"
  tr_method :: "transfer_method_type option"
  tr_status :: transfer_status_type
  tr_status_code :: "status_code option"
  tr_submitted_at :: "datetime option"
  tr_submitted_by_id :: "int option"
  tr_deleted_at :: "datetime option"
  tr_should_retry_on_failure :: "bool option"

record payment_account =
  pa_id :: int
  pa_account_id :: "int option"
  pa_account_type :: "account_type option"
  pa_entity :: "payout_account_target_type option"
  pa_transfers_enabled :: "bool option"

record stripe_managed_account =
  sma_id :: int
  sma_stripe_id :: string
  sma_country_shortname :: string

record stripe_transfer =
  st_id :: int
  st_transfer_id :: int
  st_stripe_id :: "string option"
  st_stripe_status :: string
  st_stripe_request_id :: "string option"
  st_stripe_account_id :: "string option"
  st_stripe_account_type :: "account_type option"
  st_country_shortname :: "string option"
  st_bank_name :: "string option"
  st_bank_last_four :: "string option"
  st_submission_status :: "stripe_transfer_submission_status option"
  st_submission_error_type :: "stripe_error_code option"
  st_submission_error_code :: "stripe_error_code option"
  st_submitted_at :: "datetime option"

record managed_account_transfer =
  mat_id :: int
  mat_amount :: int
  mat_transfer_id :: int
  mat_payment_account_id :: "int option"
  mat_currency :: "string option"
  mat_stripe_id :: "string option"
  mat_stripe_status :: "string option"
  mat_submitted_at :: "datetime option"

text \<open>What the gateway returns for a payout, and the metadata sent with it.\<close>

record bank_account =
  ba_bank_name :: "string option"
  ba_last4 :: "string option"

record payout =
  po_id :: string
  po_status :: string
  po_bank_account :: "bank_account option"

record stripe_transfer_metadata =
  md_transfer_id :: int
  md_account_id :: int
  md_target_type :: "string option"
  md_target_id :: "int option"

text \<open>
  The calls that reach the gateway, in the order made. The \<^verbatim>\<open>gateway_calls\<close> journal of
  the store records them; it is how "no gateway call was made" is observed.
\<close>

datatype gateway_call =
    Get_account_balance "stripe_managed_account option"
  | Create_transfer int "string option" string "string option"
  | Create_payout int string string string string stripe_transfer_metadata

record payout_store =
  transfers :: "transfer list"
  payment_accounts :: "payment_account list"
  stripe_managed_accounts :: "stripe_managed_account list"
  stripe_transfers :: "stripe_transfer list"
  managed_account_transfers :: "managed_account_transfer list"
  gateway_calls :: "gateway_call list"

text \<open>
  What the processor takes from modules that are not part of the sources: the constant
  tables of \<^verbatim>\<open>app.payout.types\<close>, the helpers of
  \<^verbatim>\<open>app.payout.core.account.utils\<close>, the gateway client, Python's \<^verbatim>\<open>int\<close> on
  a string and \<^verbatim>\<open>str.isalnum\<close> on a code point past ASCII (the interpreter's Unicode
  tables decide it). Each is a parameter; a gateway call answers with a value or raises.
\<close>

record environment =
  TRANSFER_METHOD_CHOICES :: "transfer_method_type list"
  TRANSFER_ERROR_TYPE_TO_FAILED_STATUS :: "payout_error_code list"
  STRIPE_TRANSFER_FAILED_STATUS :: string
  ManagedAccountTransferStatus_PAID :: string
  is_ongoing :: "stripe_transfer \<Rightarrow> bool"
  get_country_shortname :: "payout_store \<Rightarrow> payment_account \<Rightarrow> string option"
  get_currency_code :: "string \<Rightarrow> string"
  python_int :: "string \<Rightarrow> int option"
  str_isalnum :: "nat \<Rightarrow> bool"
  stripe_get_account_balance :: "stripe_managed_account option \<Rightarrow> exn + int"
  stripe_create_transfer :: "int \<Rightarrow> string option \<Rightarrow> string \<Rightarrow> string option \<Rightarrow> exn + string"
  stripe_create_payout ::
    "int \<Rightarrow> string \<Rightarrow> string \<Rightarrow> string \<Rightarrow> string \<Rightarrow> stripe_transfer_metadata \<Rightarrow> exn + payout"

record submit_transfer_request =
  req_transfer_id :: int
  req_statement_descriptor :: string
  req_target_id :: "string option"
  req_target_type :: "string option"
  req_method :: "transfer_method_type option"
  req_retry :: "bool option"
  req_submitted_by :: "int option"

subsection \<open>Python truth values\<close>

text \<open>\<^verbatim>\<open>None\<close>, \<^verbatim>\<open>0\<close>, \<^verbatim>\<open>False\<close> and the empty string are false; a datetime is true.\<close>

definition truthy_int :: "int option \<Rightarrow> bool" where
  "truthy_int v = (case v of None \<Rightarrow> False | Some n \<Rightarrow> n \<noteq> 0)"

definition truthy_str :: "string option \<Rightarrow> bool" where
  "truthy_str v = (case v of None \<Rightarrow> False | Some s \<Rightarrow> s \<noteq> [])"

definition truthy_bool :: "bool option \<Rightarrow> bool" where
  "truthy_bool v = (case v of None \<Rightarrow> False | Some b \<Rightarrow> b)"

definition truthy_code :: "stripe_error_code option \<Rightarrow> bool" where
  "truthy_code v = (case v of None \<Rightarrow> False | Some c \<Rightarrow> c \<noteq> Other_code [])"

text \<open>
  An \<^verbatim>\<open>async def\<close> called without \<^verbatim>\<open>await\<close> yields a coroutine object, and a
  coroutine object is true whatever the call would have returned.
\<close>

definition coroutine_object_truthy :: "'a \<Rightarrow> bool" where
  "coroutine_object_truthy pending = True"

subsection \<open>The row store behind the repositories\<close>

text \<open>
  Modelled from the spec: the repository classes behind
  \<^verbatim>\<open>TransferRepositoryInterface\<close>, \<^verbatim>\<open>PaymentAccountRepositoryInterface\<close>,
  \<^verbatim>\<open>StripeTransferRepositoryInterface\<close> and
  \<^verbatim>\<open>ManagedAccountTransferRepositoryInterface\<close> are not part of the sources. The
  spec gives them as "point lookup and conditional update by primary key ...; all updates
  return the post-update row or a not-found signal; inserts return the created row"; the
  repository test in the sources confirms that an update of a missing id returns nothing.
  An update request (\<^verbatim>\<open>TransferUpdate(...)\<close> and the like) is the function that writes
  the fields the request names, an explicit \<^verbatim>\<open>None\<close> included. The latest submission
  record is the one inserted last. Store calls do not raise.
\<close>

definition get_transfer_by_id :: "payout_store \<Rightarrow> int \<Rightarrow> transfer option" where
  "get_transfer_by_id s transfer_id =
     fetch_one (filter (\<lambda>t. tr_id t = transfer_id) (transfers s))"

definition update_transfer_by_id ::
  "payout_store \<Rightarrow> int \<Rightarrow> (transfer \<Rightarrow> transfer) \<Rightarrow> transfer option \<times> payout_store" where
  "update_transfer_by_id s transfer_id data =
     (fetch_one (returning (\<lambda>t. tr_id t = transfer_id) data (transfers s)),
      s\<lparr>transfers := update_where (\<lambda>t. tr_id t = transfer_id) data (transfers s)\<rparr>)"

definition get_payment_account_by_id :: "payout_store \<Rightarrow> int \<Rightarrow> payment_account option" where
  "get_payment_account_by_id s payment_account_id =
     fetch_one (filter (\<lambda>a. pa_id a = payment_account_id) (payment_accounts s))"

definition get_stripe_managed_account_by_id ::
  "payout_store \<Rightarrow> int \<Rightarrow> stripe_managed_account option" where
  "get_stripe_managed_account_by_id s account_id =
     fetch_one (filter (\<lambda>a. sma_id a = account_id) (stripe_managed_accounts s))"

definition get_latest_stripe_transfer_by_transfer_id ::
  "payout_store \<Rightarrow> int \<Rightarrow> stripe_transfer option" where
  "get_latest_stripe_transfer_by_transfer_id s transfer_id =
     fetch_one (rev (filter (\<lambda>r. st_transfer_id r = transfer_id) (stripe_transfers s)))"

definition get_all_ongoing_stripe_transfers_by_transfer_id ::
  "environment \<Rightarrow> payout_store \<Rightarrow> int \<Rightarrow> stripe_transfer list" where
  "get_all_ongoing_stripe_transfers_by_transfer_id env s transfer_id =
     filter (\<lambda>r. st_transfer_id r = transfer_id \<and> is_ongoing env r) (stripe_transfers s)"

definition next_id :: "int list \<Rightarrow> int" where
  "next_id ids = fold max ids 0 + 1"

definition create_stripe_transfer ::
  "payout_store \<Rightarrow> int \<Rightarrow> stripe_transfer_submission_status \<Rightarrow> string
     \<Rightarrow> stripe_transfer \<times> payout_store" where
  "create_stripe_transfer s transfer_id submission_status stripe_status =
     (let row = \<lparr>st_id = next_id (map st_id (stripe_transfers s)),
                  st_transfer_id = transfer_id, st_stripe_id = None,
                  st_stripe_status = stripe_status, st_stripe_request_id = None,
                  st_stripe_account_id = None, st_stripe_account_type = None,
                  st_country_shortname = None, st_bank_name = None,
                  st_bank_last_four = None, st_submission_status = Some submission_status,
                  st_submission_error_type = None, st_submission_error_code = None,
                  st_submitted_at = None\<rparr>
      in (row, s\<lparr>stripe_transfers := stripe_transfers s @ [row]\<rparr>))"

definition update_stripe_transfer_by_id ::
  "payout_store \<Rightarrow> int \<Rightarrow> (stripe_transfer \<Rightarrow> stripe_transfer)
     \<Rightarrow> stripe_transfer option \<times> payout_store" where
  "update_stripe_transfer_by_id s stripe_transfer_id data =
     (fetch_one (returning (\<lambda>r. st_id r = stripe_transfer_id) data (stripe_transfers s)),
      s\<lparr>stripe_transfers :=
           update_where (\<lambda>r. st_id r = stripe_transfer_id) data (stripe_transfers s)\<rparr>)"

definition get_managed_account_transfer_by_transfer_id ::
  "payout_store \<Rightarrow> int \<Rightarrow> managed_account_transfer option" where
  "get_managed_account_transfer_by_transfer_id s transfer_id =
     fetch_one (filter (\<lambda>m. mat_transfer_id m = transfer_id) (managed_account_transfers s))"

definition update_managed_account_transfer_by_id ::
  "payout_store \<Rightarrow> int \<Rightarrow> (managed_account_transfer \<Rightarrow> managed_account_transfer)
     \<Rightarrow> managed_account_transfer option \<times> payout_store" where
  "update_managed_account_transfer_by_id s managed_account_transfer_id data =
     (fetch_one (returning (\<lambda>m. mat_id m = managed_account_transfer_id) data
                   (managed_account_transfers s)),
      s\<lparr>managed_account_transfers :=
           update_where (\<lambda>m. mat_id m = managed_account_transfer_id) data
             (managed_account_transfers s)\<rparr>)"

definition create_managed_account_transfer ::
  "payout_store \<Rightarrow> int \<Rightarrow> int \<Rightarrow> int \<Rightarrow> string option
     \<Rightarrow> managed_account_transfer \<times> payout_store" where
  "create_managed_account_transfer s amount transfer_id payment_account_id currency =
     (let row = \<lparr>mat_id = next_id (map mat_id (managed_account_transfers s)),
                  mat_amount = amount, mat_transfer_id = transfer_id,
                  mat_payment_account_id = Some payment_account_id, mat_currency = currency,
                  mat_stripe_id = None, mat_stripe_status = None, mat_submitted_at = None\<rparr>
      in (row, s\<lparr>managed_account_transfers := managed_account_transfers s @ [row]\<rparr>))"

text \<open>The gateway answers and the call is entered in the journal.\<close>

definition call_gateway :: "gateway_call \<Rightarrow> payout_store \<Rightarrow> payout_store" where
  "call_gateway c s = s\<lparr>gateway_calls := gateway_calls s @ [c]\<rparr>"

subsection \<open>The processor \<^verbatim>\<open>SubmitTransfer\<close>\<close>

text \<open>
  Every function takes the store and returns its result, or the exception it raises,
  with the store it leaves behind. Log calls are omitted. All clock readings of one call
  are the one value \<open>now\<close>. The wrappers \<^verbatim>\<open>models.Amount\<close>, \<^verbatim>\<open>models.Currency\<close>,
  \<^verbatim>\<open>models.CountryCode\<close>, \<^verbatim>\<open>models.StripeAccountId\<close> and \<^verbatim>\<open>models.Destination\<close>
  pass their argument through.
\<close>

text \<open>
  The expression \<^verbatim>\<open>await repo.get_stripe_managed_account_by_id(payment_account.account_id)
  if payment_account.account_id else None\<close>, which the source also spells as a nested
  \<^verbatim>\<open>if\<close>.
\<close>

definition lookup_stripe_managed_account ::
  "payout_store \<Rightarrow> payment_account \<Rightarrow> stripe_managed_account option" where
  "lookup_stripe_managed_account s payment_account =
     (case pa_account_id payment_account of
        None \<Rightarrow> None
      | Some account_id \<Rightarrow>
          if account_id = 0 then None else get_stripe_managed_account_by_id s account_id)"

text \<open>
  \<^verbatim>\<open>handle_dummy_transfer\<close>. Its \<^verbatim>\<open>except Exception\<close> clause guards the store call
  alone; the store of this model does not raise, so \<^verbatim>\<open>DUMMY_TRANSFER_CREATION_FAILED\<close>
  has no source here.
\<close>

definition handle_dummy_transfer ::
  "datetime \<Rightarrow> payout_store \<Rightarrow> int \<Rightarrow> transfer_method_type option
     \<Rightarrow> (exn + bool) \<times> payout_store" where
  "handle_dummy_transfer now s transfer_id method =
     (case update_transfer_by_id s transfer_id
             (\<lambda>t. t\<lparr>tr_method := method, tr_submitted_at := Some now, tr_status := PAID,
                      tr_status_code := None\<rparr>) of
        (_, s') \<Rightarrow> (Inr True, s'))"

definition get_latest_transfer_submission ::
  "payout_store \<Rightarrow> int \<Rightarrow> transfer_method_type option \<Rightarrow> stripe_transfer option" where
  "get_latest_transfer_submission s transfer_id method =
     (if method = Some STRIPE then get_latest_stripe_transfer_by_transfer_id s transfer_id
      else None)"

text \<open>
  \<^verbatim>\<open>PayoutMethodType.STRIPE\<close> and \<^verbatim>\<open>TransferMethodType.STRIPE\<close> both name the
  gateway method; the model has the one member \<open>STRIPE\<close>.
\<close>

definition is_processing_or_processed_for_method ::
  "environment \<Rightarrow> payout_store \<Rightarrow> int \<Rightarrow> transfer_method_type option \<Rightarrow> bool" where
  "is_processing_or_processed_for_method env s transfer_id method =
     (if method = Some STRIPE
      then length (get_all_ongoing_stripe_transfers_by_transfer_id env s transfer_id) > 0
      else False)"

definition has_stripe_managed_account ::
  "payout_store \<Rightarrow> payment_account \<Rightarrow> int \<Rightarrow> (exn + bool) \<times> payout_store" where
  "has_stripe_managed_account s payment_account transfer_id =
     (case lookup_stripe_managed_account s payment_account of
        Some stripe_managed_account \<Rightarrow> (Inr True, s)
      | None \<Rightarrow>
          (case update_transfer_by_id s transfer_id
                  (\<lambda>t. t\<lparr>tr_status := FAILED,
                           tr_status_code :=
                             Some (Transfer_status_code ERROR_NO_GATEWAY_ACCOUNT)\<rparr>) of
             (_, s') \<Rightarrow> (Inl (PayoutError INVALID_STRIPE_ACCOUNT_ID), s')))"

definition validate_payment_account_of_managed_account_transfer ::
  "payout_store \<Rightarrow> payment_account \<Rightarrow> int \<Rightarrow> managed_account_transfer option
     \<Rightarrow> (exn + bool) \<times> payout_store" where
  "validate_payment_account_of_managed_account_transfer s payment_account transfer_id
       managed_account_transfer =
     (case managed_account_transfer of
        None \<Rightarrow> (Inr True, s)
      | Some m \<Rightarrow>
          if truthy_int (mat_payment_account_id m)
               \<and> Some (pa_id payment_account) \<noteq> mat_payment_account_id m
          then (case update_transfer_by_id s transfer_id
                       (\<lambda>t. t\<lparr>tr_status := ERROR,
                                tr_status_code :=
                                  Some (Transfer_status_code ERROR_ACCOUNT_ID_MISMATCH)\<rparr>) of
                  (_, s') \<Rightarrow> (Inl (PayoutError MISMATCHED_TRANSFER_PAYMENT_ACCOUNT), s'))
          else (Inr True, s))"

text \<open>
  The first half of \<^verbatim>\<open>managed_account_balance_check\<close>: the amount still needed, which
  is the whole amount for a dasher and the amount less the gateway balance otherwise.
\<close>

definition amount_still_needed ::
  "environment \<Rightarrow> payout_store \<Rightarrow> payment_account \<Rightarrow> int \<Rightarrow> (exn + int) \<times> payout_store" where
  "amount_still_needed env s payment_account amount =
     (if pa_entity payment_account = Some DASHER then (Inr amount, s)
      else
        (let stripe_managed_account = lookup_stripe_managed_account s payment_account;
             s1 = call_gateway (Get_account_balance stripe_managed_account) s
         in case stripe_get_account_balance env stripe_managed_account of
              Inl e \<Rightarrow> (Inl e, s1)
            | Inr account_balance \<Rightarrow> (Inr (amount - account_balance), s1)))"

definition managed_account_balance_check ::
  "environment \<Rightarrow> payout_store \<Rightarrow> payment_account \<Rightarrow> int \<Rightarrow> int
     \<Rightarrow> (exn + unit) \<times> payout_store" where
  "managed_account_balance_check env s payment_account transfer_id amount =
     (case amount_still_needed env s payment_account amount of
        (Inl e, s1) \<Rightarrow> (Inl e, s1)
      | (Inr needed, s1) \<Rightarrow>
          (let managed_account_transfer =
                 get_managed_account_transfer_by_transfer_id s1 transfer_id
           in case validate_payment_account_of_managed_account_transfer s1 payment_account
                     transfer_id managed_account_transfer of
                (Inl e, s2) \<Rightarrow> (Inl e, s2)
              | (Inr _, s2) \<Rightarrow>
                  if needed > 0 then
                    (case managed_account_transfer of
                       Some m \<Rightarrow>
                         if mat_amount m < needed
                         then (Inr (), snd (update_managed_account_transfer_by_id s2 (mat_id m)
                                              (\<lambda>r. r\<lparr>mat_amount := needed\<rparr>)))
                         else (Inr (), s2)
                     | None \<Rightarrow>
                         (let country_shortname = get_country_shortname env s2 payment_account;
                              currency =
                                (case country_shortname of
                                   None \<Rightarrow> None
                                 | Some c \<Rightarrow>
                                     if c = [] then None else Some (get_currency_code env c))
                          in (Inr (), snd (create_managed_account_transfer s2 needed transfer_id
                                             (pa_id payment_account) currency))))
                  else
                    (case managed_account_transfer of
                       Some m \<Rightarrow>
                         (Inr (), snd (update_managed_account_transfer_by_id s2 (mat_id m)
                                         (\<lambda>r. r\<lparr>mat_amount := 0\<rparr>)))
                     | None \<Rightarrow> (Inr (), s2))))"

definition get_stripe_account_id :: "payout_store \<Rightarrow> payment_account \<Rightarrow> exn + string" where
  "get_stripe_account_id s payment_account =
     (case lookup_stripe_managed_account s payment_account of
        Some stripe_managed_account \<Rightarrow> Inr (sma_stripe_id stripe_managed_account)
      | None \<Rightarrow> Inl (PayoutError INVALID_STRIPE_ACCOUNT))"

definition submit_managed_account_transfer ::
  "environment \<Rightarrow> datetime \<Rightarrow> payout_store \<Rightarrow> managed_account_transfer \<Rightarrow> payment_account
     \<Rightarrow> (exn + unit) \<times> payout_store" where
  "submit_managed_account_transfer env now s m payment_account =
     (if mat_amount m \<le> 0 then (Inr (), s)
      else
        (case lookup_stripe_managed_account s payment_account of
           None \<Rightarrow> (Inl (PayoutError INVALID_STRIPE_ACCOUNT_ID), s)
         | Some stripe_managed_account \<Rightarrow>
             (let stripe_destination_id = sma_stripe_id stripe_managed_account;
                  country = get_country_shortname env s payment_account;
                  s1 = call_gateway (Create_transfer (mat_amount m) (mat_currency m)
                                       stripe_destination_id country) s
              in case stripe_create_transfer env (mat_amount m) (mat_currency m)
                        stripe_destination_id country of
                   Inl e \<Rightarrow> (Inl e, s1)
                 | Inr transfer_stripe_id \<Rightarrow>
                     (Inr (), snd (update_managed_account_transfer_by_id s1 (mat_id m)
                                     (\<lambda>r. r\<lparr>mat_stripe_id := Some transfer_stripe_id,
                                              mat_stripe_status :=
                                                Some (ManagedAccountTransferStatus_PAID env),
                                              mat_submitted_at := Some now\<rparr>))))))"

text \<open>\<^verbatim>\<open>int(target_id)\<close> raises \<^verbatim>\<open>ValueError\<close> on text that is not an integer.\<close>

definition get_stripe_transfer_metadata ::
  "environment \<Rightarrow> int \<Rightarrow> payment_account \<Rightarrow> string option \<Rightarrow> string option
     \<Rightarrow> exn + stripe_transfer_metadata" where
  "get_stripe_transfer_metadata env transfer_id payment_account target_type target_id =
     (let transfer_metadata =
            \<lparr>md_transfer_id = transfer_id, md_account_id = pa_id payment_account,
             md_target_type = (if truthy_str target_type then target_type else None),
             md_target_id = None\<rparr>
      in case target_id of
           None \<Rightarrow> Inr transfer_metadata
         | Some text \<Rightarrow>
             if text = [] then Inr transfer_metadata
             else (case python_int env text of
                     None \<Rightarrow> Inl ValueError
                   | Some n \<Rightarrow> Inr (transfer_metadata\<lparr>md_target_id := Some n\<rparr>)))"

definition create_for_managed_account ::
  "environment \<Rightarrow> datetime \<Rightarrow> payout_store \<Rightarrow> int \<Rightarrow> int \<Rightarrow> payment_account \<Rightarrow> string
     \<Rightarrow> string \<Rightarrow> string option \<Rightarrow> string option \<Rightarrow> (exn + payout) \<times> payout_store" where
  "create_for_managed_account env now s amount transfer_id payment_account stripe_account_id
       statement_descriptor target_type target_id =
     (let managed_account_transfer = get_managed_account_transfer_by_transfer_id s transfer_id
      in case (case managed_account_transfer of
                 None \<Rightarrow> (Inr (), s)
               | Some m \<Rightarrow>
                   if mat_amount m > 0
                   then submit_managed_account_transfer env now s m payment_account
                   else (Inr (), s)) of
           (Inl e, s1) \<Rightarrow> (Inl e, s1)
         | (Inr _, s1) \<Rightarrow>
             (case get_country_shortname env s1 payment_account of
                None \<Rightarrow> (Inl (PayoutError UNSUPPORTED_COUNTRY), s1)
              | Some country_shortname \<Rightarrow>
                  if country_shortname = []
                  then (Inl (PayoutError UNSUPPORTED_COUNTRY), s1)
                  else
                    (case get_stripe_transfer_metadata env transfer_id payment_account
                            target_type target_id of
                       Inl e \<Rightarrow> (Inl e, s1)
                     | Inr metadata \<Rightarrow>
                         (let currency = get_currency_code env country_shortname
                          in (stripe_create_payout env amount currency country_shortname
                                stripe_account_id statement_descriptor metadata,
                              call_gateway
                                (Create_payout amount currency country_shortname
                                   stripe_account_id statement_descriptor metadata) s1)))))"

text \<open>
  \<^verbatim>\<open>extract_failure_code_from_exception_message\<close>. \<^verbatim>\<open>message_pattern.match\<close>
  matches at the start of the message: the fixed text, an opening parenthesis, one or
  more word characters, a closing parenthesis. A run of word characters is followed by a
  closing parenthesis only if it is the longest run (the parenthesis is no word
  character), so no backtracking is involved. The pattern is a \<^verbatim>\<open>str\<close> pattern, so
  \<^verbatim>\<open>\w\<close> is the Unicode class: the underscore and every code point for which
  \<^verbatim>\<open>str.isalnum\<close> holds, which among the ASCII code points are the letters and the
  digits.
\<close>

fun strip_prefix :: "'a list \<Rightarrow> 'a list \<Rightarrow> 'a list option" where
  "strip_prefix [] ys = Some ys"
| "strip_prefix (x # xs) [] = None"
| "strip_prefix (x # xs) (y # ys) = (if x = y then strip_prefix xs ys else None)"

definition is_word_char :: "environment \<Rightarrow> nat \<Rightarrow> bool" where
  "is_word_char env n =
     (if n < 128
      then (48 \<le> n \<and> n \<le> 57) \<or> (65 \<le> n \<and> n \<le> 90) \<or> (97 \<le> n \<and> n \<le> 122) \<or> n = 95
      else str_isalnum env n)"

definition message_pattern_match :: "environment \<Rightarrow> code_points \<Rightarrow> bool" where
  "message_pattern_match env message =
     (case strip_prefix
             (map of_char ''Sorry, you don't have any external accounts in that currency ('')
             message of
        None \<Rightarrow> False
      | Some rest \<Rightarrow>
          takeWhile (is_word_char env) rest \<noteq> []
          \<and> (case dropWhile (is_word_char env) rest of
                [] \<Rightarrow> False
              | c # _ \<Rightarrow> c = of_char (CHR '')'')))"

definition extract_failure_code_from_exception_message ::
  "environment \<Rightarrow> code_points option \<Rightarrow> stripe_error_code" where
  "extract_failure_code_from_exception_message env message =
     (case message of
        None \<Rightarrow> UNKNOWN_ERROR_STR
      | Some m \<Rightarrow>
          if m \<noteq> [] \<and> message_pattern_match env m then NO_EXT_ACCOUNT_IN_CURRENCY
          else UNKNOWN_ERROR_STR)"

text \<open>
  The local \<^verbatim>\<open>submission_error_code\<close> of the \<^verbatim>\<open>except StripeError\<close> clause: the
  code of the error, or, when the error has none, the one recovered from its message.
\<close>

definition submission_error_code_of ::
  "environment \<Rightarrow> stripe_error_info \<Rightarrow> stripe_error_code option" where
  "submission_error_code_of env error_info =
     (if truthy_code (ei_code error_info) then ei_code error_info
      else Some (extract_failure_code_from_exception_message env (ei_message error_info)))"

text \<open>
  The \<^verbatim>\<open>except StripeError\<close> clause of \<^verbatim>\<open>_submit_stripe_transfer\<close>. Its first
  statement is \<^verbatim>\<open>error_info = e.json_body.get("error", {})\<close>: on an error without a
  body it raises \<^verbatim>\<open>AttributeError\<close>, which leaves the clause before anything is
  written. Otherwise the submission record is written first, then the error is classified
  from the row the store returned.
\<close>

definition handle_stripe_error ::
  "environment \<Rightarrow> payout_store \<Rightarrow> stripe_transfer \<Rightarrow> payment_account \<Rightarrow> string
     \<Rightarrow> stripe_error \<Rightarrow> (exn + unit) \<times> payout_store" where
  "handle_stripe_error env s stripe_transfer payment_account stripe_account_id e =
     (case se_json_body e of
        None \<Rightarrow> (Inl AttributeError, s)
      | Some error_info \<Rightarrow>
          (let submission_error_code = submission_error_code_of env error_info
           in case update_stripe_transfer_by_id s (st_id stripe_transfer)
                     (\<lambda>r. r\<lparr>st_country_shortname := get_country_shortname env s payment_account,
                              st_stripe_account_id := Some stripe_account_id,
                              st_stripe_account_type :=
                                Some ACCOUNT_TYPE_STRIPE_MANAGED_ACCOUNT,
                              st_stripe_status := STRIPE_TRANSFER_FAILED_STATUS env,
                              st_stripe_request_id := se_request_id e,
                              st_submission_status :=
                                Some (if truthy_str (se_request_id e) then SUBMITTED
                                      else FAILED_TO_SUBMIT),
                              st_submission_error_type := ei_type error_info,
                              st_submission_error_code := submission_error_code\<rparr>) of
                (None, s1) \<Rightarrow> (Inl AssertionError, s1)
              | (Some updated_stripe_transfer, s1) \<Rightarrow>
                  if st_submission_error_code updated_stripe_transfer
                       = Some NO_EXT_ACCOUNT_IN_CURRENCY
                  then (Inl (PayoutError STRIPE_PAYOUT_ACCT_MISSING), s1)
                  else if st_submission_error_code updated_stripe_transfer
                       = Some PAYOUT_NOT_ALLOWED
                  then (Inl (PayoutError STRIPE_PAYOUT_DISALLOWED), s1)
                  else if st_submission_error_type updated_stripe_transfer
                       = Some INVALID_REQUEST_ERROR
                  then (Inl (PayoutError STRIPE_INVALID_REQUEST_ERROR), s1)
                  else (Inl (PayoutError STRIPE_SUBMISSION_ERROR), s1)))"

text \<open>\<^verbatim>\<open>_submit_stripe_transfer\<close>.\<close>

definition private_submit_stripe_transfer ::
  "environment \<Rightarrow> datetime \<Rightarrow> payout_store \<Rightarrow> stripe_transfer \<Rightarrow> payment_account \<Rightarrow> int
     \<Rightarrow> int \<Rightarrow> string \<Rightarrow> string option \<Rightarrow> string option \<Rightarrow> (exn + unit) \<times> payout_store" where
  "private_submit_stripe_transfer env now s stripe_transfer payment_account amount transfer_id
       statement_descriptor target_type target_id =
     (if truthy_str (st_stripe_id stripe_transfer)
      then (Inl (PayoutError DUPLICATE_STRIPE_TRANSFER), s)
      else
        (case get_stripe_account_id s payment_account of
           Inl e \<Rightarrow> (Inl e, s)
         | Inr stripe_account_id \<Rightarrow>
             if pa_account_type payment_account \<noteq> Some ACCOUNT_TYPE_STRIPE_MANAGED_ACCOUNT
             then (Inl (PayoutError INVALID_STRIPE_ACCOUNT), s)
             else
               (case create_for_managed_account env now s amount transfer_id payment_account
                       stripe_account_id statement_descriptor target_type target_id of
                  (Inr payout_of_stripe, s1) \<Rightarrow>
                    (case update_stripe_transfer_by_id s1 (st_id stripe_transfer)
                            (\<lambda>r. r\<lparr>st_country_shortname :=
                                       get_country_shortname env s1 payment_account,
                                     st_stripe_account_id := Some stripe_account_id,
                                     st_stripe_account_type :=
                                       Some ACCOUNT_TYPE_STRIPE_MANAGED_ACCOUNT,
                                     st_stripe_status := po_status payout_of_stripe,
                                     st_stripe_id := Some (po_id payout_of_stripe),
                                     st_bank_name :=
                                       (case po_bank_account payout_of_stripe of
                                          None \<Rightarrow> None | Some b \<Rightarrow> ba_bank_name b),
                                     st_bank_last_four :=
                                       (case po_bank_account payout_of_stripe of
                                          None \<Rightarrow> None | Some b \<Rightarrow> ba_last4 b),
                                     st_submission_status := Some SUBMITTED,
                                     st_submitted_at := Some now\<rparr>) of
                       (None, s2) \<Rightarrow> (Inl AssertionError, s2)
                     | (Some updated_stripe_transfer, s2) \<Rightarrow>
                         (Inr (), snd (update_transfer_by_id s2 transfer_id
                                         (\<lambda>t. t\<lparr>tr_status := PENDING,
                                                  tr_status_code := None\<rparr>))))
                | (Inl (StripeError e), s1) \<Rightarrow>
                    handle_stripe_error env s1 stripe_transfer payment_account
                      stripe_account_id e
                | (Inl other, s1) \<Rightarrow> (Inl other, s1))))"

text \<open>The \<^verbatim>\<open>try\<close> block of \<^verbatim>\<open>submit_stripe_transfer\<close>.\<close>

definition submit_stripe_transfer_attempt ::
  "environment \<Rightarrow> datetime \<Rightarrow> payout_store \<Rightarrow> int \<Rightarrow> payment_account \<Rightarrow> int \<Rightarrow> string
     \<Rightarrow> string option \<Rightarrow> string option \<Rightarrow> int option \<Rightarrow> (exn + unit) \<times> payout_store" where
  "submit_stripe_transfer_attempt env now s transfer_id payment_account amount
       statement_descriptor target_type target_id submitted_by =
     (case create_stripe_transfer s transfer_id SUBMITTING [] of
        (stripe_transfer, s1) \<Rightarrow>
          (case private_submit_stripe_transfer env now s1 stripe_transfer payment_account
                  amount transfer_id statement_descriptor target_type target_id of
             (Inl e, s2) \<Rightarrow> (Inl e, s2)
           | (Inr _, s2) \<Rightarrow>
               (Inr (), snd (update_transfer_by_id s2 transfer_id
                               (\<lambda>t. t\<lparr>tr_submitted_at := Some now,
                                        tr_submitted_by_id := submitted_by\<rparr>)))))"

text \<open>
  \<^verbatim>\<open>submit_stripe_transfer\<close>: the attempt and its two \<^verbatim>\<open>except\<close> clauses. The first
  re-raises the \<^verbatim>\<open>PayoutError\<close> after recording it; the second records
  \<^verbatim>\<open>UNKNOWN_ERROR\<close> and ends without a \<^verbatim>\<open>raise\<close>.
\<close>

text \<open>The first statement of \<^verbatim>\<open>submit_stripe_transfer\<close>, before its \<^verbatim>\<open>try\<close>.\<close>

definition reset_transfer_for_submission :: "payout_store \<Rightarrow> int \<Rightarrow> payout_store" where
  "reset_transfer_for_submission s transfer_id =
     snd (update_transfer_by_id s transfer_id
            (\<lambda>t. t\<lparr>tr_status_code := None, tr_should_retry_on_failure := Some False\<rparr>))"

definition submit_stripe_transfer ::
  "environment \<Rightarrow> datetime \<Rightarrow> payout_store \<Rightarrow> int \<Rightarrow> payment_account \<Rightarrow> int \<Rightarrow> string
     \<Rightarrow> string option \<Rightarrow> string option \<Rightarrow> int option \<Rightarrow> (exn + unit) \<times> payout_store" where
  "submit_stripe_transfer env now s transfer_id payment_account amount statement_descriptor
       target_type target_id submitted_by =
     (let s0 = reset_transfer_for_submission s transfer_id
      in case submit_stripe_transfer_attempt env now s0 transfer_id payment_account amount
                statement_descriptor target_type target_id submitted_by of
           (Inr _, s1) \<Rightarrow> (Inr (), s1)
         | (Inl (PayoutError error_code), s1) \<Rightarrow>
             if error_code \<in> set (TRANSFER_ERROR_TYPE_TO_FAILED_STATUS env)
             then (Inl (PayoutError error_code),
                   snd (update_transfer_by_id s1 transfer_id
                          (\<lambda>t. t\<lparr>tr_status := FAILED,
                                   tr_status_code := Some (Payout_error_code error_code),
                                   tr_submitted_at := Some now,
                                   tr_submitted_by_id := submitted_by\<rparr>)))
             else (Inl (PayoutError error_code),
                   snd (update_transfer_by_id s1 transfer_id
                          (\<lambda>t. t\<lparr>tr_status := ERROR,
                                   tr_status_code :=
                                     Some (Transfer_status_code ERROR_SUBMISSION)\<rparr>)))
         | (Inl other, s1) \<Rightarrow>
             (Inr (), snd (update_transfer_by_id s1 transfer_id
                             (\<lambda>t. t\<lparr>tr_status := ERROR,
                                      tr_status_code :=
                                        Some (Transfer_status_code UNKNOWN_ERROR)\<rparr>))))"

text \<open>
  The statements of \<^verbatim>\<open>_execute\<close> after the reconciliation of the constituent
  transactions, from the currency backfill to the end. The backfill calls
  \<^verbatim>\<open>get_country_shortname\<close> without \<^verbatim>\<open>await\<close>, so what reaches
  \<^verbatim>\<open>TransferUpdate(currency=...)\<close> is a coroutine object, which the text field rejects:
  the branch ends in \<^verbatim>\<open>ValidationError\<close>. The duplicate guard calls
  \<^verbatim>\<open>self.get_latest_transfer_submission\<close> without \<^verbatim>\<open>await\<close> as well, so its second
  operand is a coroutine object.
\<close>

definition execute_validated ::
  "environment \<Rightarrow> datetime \<Rightarrow> submit_transfer_request \<Rightarrow> transfer \<Rightarrow> payment_account
     \<Rightarrow> payout_store \<Rightarrow> (exn + unit) \<times> payout_store" where
  "execute_validated env now request transfer payment_account s =
     (let transfer_id = req_transfer_id request
      in if \<not> truthy_str (tr_currency transfer) then (Inl ValidationError, s)
         else if tr_deleted_at transfer \<noteq> None
         then (Inl (PayoutError TRANSFER_ALREADY_DELETED), s)
         else if \<not> truthy_bool (req_retry request)
                 \<and> (tr_submitted_at transfer \<noteq> None
                      \<or> coroutine_object_truthy
                           (get_latest_transfer_submission s transfer_id
                              (if req_method request \<noteq> None then req_method request
                               else tr_method transfer)))
         then (Inl (PayoutError DUPLICATE_TRANSFER), s)
         else if truthy_bool (req_retry request) \<and> tr_status transfer = ERROR
                 \<and> \<not> truthy_bool (pa_transfers_enabled payment_account)
         then (Inl (PayoutError TRANSFER_DISABLED_ERROR), s)
         else if req_method request \<notin> set (map Some (TRANSFER_METHOD_CHOICES env))
         then (Inl AssertionError, s)
         else if tr_amount transfer = 0
                 \<or> req_method request \<in> {Some DOORDASH_PAY, Some COD_INVOICE}
         then (case handle_dummy_transfer now s transfer_id (req_method request) of
                 (Inl e, s1) \<Rightarrow> (Inl e, s1)
               | (Inr _, s1) \<Rightarrow> (Inr (), s1))
         else if is_processing_or_processed_for_method env s transfer_id (req_method request)
         then (Inl (PayoutError TRANSFER_PROCESSING), s)
         else
           (case (if req_method request = Some STRIPE
                  then (case has_stripe_managed_account s payment_account transfer_id of
                          (Inl e, s1) \<Rightarrow> (Inl e, s1)
                        | (Inr _, s1) \<Rightarrow>
                            managed_account_balance_check env s1 payment_account transfer_id
                              (tr_amount transfer))
                  else (Inr (), s)) of
              (Inl e, s2) \<Rightarrow> (Inl e, s2)
            | (Inr _, s2) \<Rightarrow>
                submit_stripe_transfer env now s2 transfer_id payment_account
                  (tr_amount transfer) (req_statement_descriptor request)
                  (req_target_type request) (req_target_id request)
                  (req_submitted_by request)))"

text \<open>
  \<^verbatim>\<open>_execute\<close>. The source binds the local \<^verbatim>\<open>transactions\<close> to the empty list
  (\<^verbatim>\<open>transactions: List[TransactionDBEntity] = []\<close>, under the comment
  \<^verbatim>\<open># todo: wait for txn repo GET functions to check in\<close>) and branches on it; the
  model keeps the binding and both branches. The list stands for the amounts of the
  constituent transactions.
\<close>

definition execute ::
  "environment \<Rightarrow> datetime \<Rightarrow> submit_transfer_request \<Rightarrow> payout_store
     \<Rightarrow> (exn + unit) \<times> payout_store" where
  "execute env now request s =
     (let transfer_id = req_transfer_id request
      in case get_transfer_by_id s transfer_id of
           None \<Rightarrow> (Inl (PayoutError TRANSFER_NOT_FOUND), s)
         | Some transfer \<Rightarrow>
             if \<not> truthy_int (tr_payment_account_id transfer) then (Inl AssertionError, s)
             else
               (case get_payment_account_by_id s
                       (case tr_payment_account_id transfer of Some a \<Rightarrow> a | None \<Rightarrow> 0) of
                  None \<Rightarrow> (Inl (PayoutError INVALID_PAYMENT_ACCOUNT_ID), s)
                | Some payment_account \<Rightarrow>
                    (let transactions = ([] :: int list)
                     in if transactions \<noteq> [] then
                          (let transaction_sum = sum_list transactions;
                               diff = \<bar>transaction_sum - tr_amount transfer\<bar>
                           in if diff \<noteq> 0
                              then (Inl (PayoutError MISMATCHED_TRANSFER_AMOUNT),
                                    snd (update_transfer_by_id s transfer_id
                                           (\<lambda>t. t\<lparr>tr_status := ERROR,
                                                    tr_status_code :=
                                                      Some (Transfer_status_code
                                                              ERROR_AMOUNT_MISMATCH)\<rparr>)))
                              else execute_validated env now request transfer
                                     payment_account s)
                        else
                          (Inl (PayoutError TRANSFER_INVALID_STATE),
                           snd (update_transfer_by_id s transfer_id
                                  (\<lambda>t. t\<lparr>tr_status := ERROR,
                                           tr_status_code :=
                                             Some (Transfer_status_code
                                                     ERROR_INVALID_STATE)\<rparr>))))))"

subsection \<open>Sample environment, rows and requests\<close>

definition sample_environment :: environment where
  "sample_environment =
     \<lparr>TRANSFER_METHOD_CHOICES = [STRIPE, DOORDASH_PAY, COD_INVOICE],
      TRANSFER_ERROR_TYPE_TO_FAILED_STATUS =
        [STRIPE_PAYOUT_ACCT_MISSING, STRIPE_PAYOUT_DISALLOWED, STRIPE_INVALID_REQUEST_ERROR],
      STRIPE_TRANSFER_FAILED_STATUS = ''failed'',
      ManagedAccountTransferStatus_PAID = ''paid'',
      is_ongoing = (\<lambda>r. st_submission_status r = Some SUBMITTING),
      get_country_shortname =
        (\<lambda>s a. case lookup_stripe_managed_account s a of
                  None \<Rightarrow> None
                | Some m \<Rightarrow> Some (sma_country_shortname m)),
      get_currency_code = (\<lambda>c. if c = ''US'' then ''usd'' else ''cad''),
      python_int = (\<lambda>t. if t = ''17'' then Some 17 else None),
      str_isalnum = (\<lambda>n. 192 \<le> n \<and> n \<le> 255 \<and> n \<noteq> 215 \<and> n \<noteq> 247),
      stripe_get_account_balance = (\<lambda>a. Inr 0),
      stripe_create_transfer = (\<lambda>amount currency destination country. Inr ''tr_1''),
      stripe_create_payout =
        (\<lambda>amount currency country account descriptor metadata.
           Inr \<lparr>po_id = ''po_1'', po_status = ''pending'', po_bank_account = None\<rparr>)\<rparr>"

definition sample_transfer :: transfer where
  "sample_transfer =
     \<lparr>tr_id = 1, tr_payment_account_id = Some 10, tr_amount = 500,
      tr_currency = Some ''usd'', tr_method = Some STRIPE, tr_status = NEW,
      tr_status_code = None, tr_submitted_at = None, tr_submitted_by_id = None,
      tr_deleted_at = None, tr_should_retry_on_failure = None\<rparr>"

definition sample_payment_account :: payment_account where
  "sample_payment_account =
     \<lparr>pa_id = 10, pa_account_id = Some 20,
      pa_account_type = Some ACCOUNT_TYPE_STRIPE_MANAGED_ACCOUNT,
      pa_entity = Some STORE, pa_transfers_enabled = Some True\<rparr>"

definition sample_stripe_managed_account :: stripe_managed_account where
  "sample_stripe_managed_account =
     \<lparr>sma_id = 20, sma_stripe_id = ''acct_1'', sma_country_shortname = ''US''\<rparr>"

text \<open>A store that holds the given transfer and payment account, and nothing submitted.\<close>

definition store_of :: "transfer \<Rightarrow> payment_account \<Rightarrow> payout_store" where
  "store_of t a =
     \<lparr>transfers = [t], payment_accounts = [a],
      stripe_managed_accounts = [sample_stripe_managed_account],
      stripe_transfers = [], managed_account_transfers = [], gateway_calls = []\<rparr>"

definition sample_store :: payout_store where
  "sample_store = store_of sample_transfer sample_payment_account"

definition sample_request :: submit_transfer_request where
  "sample_request =
     \<lparr>req_transfer_id = 1, req_statement_descriptor = ''payout'', req_target_id = None,
      req_target_type = None, req_method = Some STRIPE, req_retry = Some False,
      req_submitted_by = None\<rparr>"

definition retry_request :: submit_transfer_request where
  "retry_request = sample_request\<lparr>req_retry := Some True\<rparr>"

text \<open>A transfer that failed before, on an account with transfers switched off.\<close>

definition failed_disabled_store :: payout_store where
  "failed_disabled_store =
     store_of (sample_transfer\<lparr>tr_status := FAILED\<rparr>)
       (sample_payment_account\<lparr>pa_transfers_enabled := Some False\<rparr>)"

text \<open>A transfer that was submitted before.\<close>

definition submitted_store :: payout_store where
  "submitted_store =
     store_of (sample_transfer\<lparr>tr_submitted_at := Some 5\<rparr>) sample_payment_account"

text \<open>A transfer of amount zero.\<close>

definition zero_amount_store :: payout_store where
  "zero_amount_store = store_of (sample_transfer\<lparr>tr_amount := 0\<rparr>) sample_payment_account"

text \<open>A dasher account, and a store whose transfer already has a top-up of 500 recorded.\<close>

definition dasher_payment_account :: payment_account where
  "dasher_payment_account = sample_payment_account\<lparr>pa_entity := Some DASHER\<rparr>"

definition topped_up_store :: payout_store where
  "topped_up_store =
     (store_of sample_transfer dasher_payment_account)
       \<lparr>managed_account_transfers :=
          [\<lparr>mat_id = 1, mat_amount = 500, mat_transfer_id = 1,
            mat_payment_account_id = Some 10, mat_currency = Some ''usd'',
            mat_stripe_id = None, mat_stripe_status = None, mat_submitted_at = None\<rparr>]\<rparr>"

text \<open>
  A gateway whose error carries no body (the gateway library raises such an error, a
  \<^verbatim>\<open>StripeError\<close> with \<^verbatim>\<open>json_body=None\<close> and no request id, when the connection
  fails), and a client that fails with an exception that is no gateway error.
\<close>

definition bodyless_environment :: environment where
  "bodyless_environment =
     sample_environment
       \<lparr>stripe_create_payout :=
          (\<lambda>amount currency country account descriptor metadata.
             Inl (StripeError \<lparr>se_json_body = None, se_request_id = None\<rparr>))\<rparr>"

definition unreachable_environment :: environment where
  "unreachable_environment =
     sample_environment
       \<lparr>stripe_create_payout :=
          (\<lambda>amount currency country account descriptor metadata.
             Inl (OtherException ''connection reset''))\<rparr>"

text \<open>The store and the submission record right after the record has been created.\<close>

definition submitting_store :: payout_store where
  "submitting_store = snd (create_stripe_transfer sample_store 1 SUBMITTING [])"

definition submitting_stripe_transfer :: stripe_transfer where
  "submitting_stripe_transfer = fst (create_stripe_transfer sample_store 1 SUBMITTING [])"

section \<open>Properties of the cart payment repository\<close>

subsection \<open>Result sets and rewritten rows\<close>

lemma fetch_one_None_iff: "fetch_one rs = None \<longleftrightarrow> rs = []"
  by (cases rs) (simp_all add: fetch_one_def)

lemma fetch_one_returning_None_iff:
  "fetch_one (returning p f rows) = None \<longleftrightarrow> (\<forall>r \<in> set rows. \<not> p r)"
  by (simp add: fetch_one_None_iff returning_def filter_empty_conv)

lemma update_where_no_match: "\<forall>r \<in> set rows. \<not> p r \<Longrightarrow> update_where p f rows = rows"
  by (induction rows) (simp_all add: update_where_def)

lemma fetch_one_returning_Some:
  "fetch_one (returning p f rows) = Some r \<Longrightarrow> \<exists>r0 \<in> set rows. p r0 \<and> r = f r0"
  by (induction rows) (auto simp: fetch_one_def returning_def split: if_splits)


lemma in_update_whereE:
  assumes "r \<in> set (update_where p f rows)"
  obtains r0 where "r0 \<in> set rows" and "r = (if p r0 then f r0 else r0)"
proof -
  from assms have "r \<in> (\<lambda>r. if p r then f r else r) ` set rows"
    by (simp add: update_where_def)
  then show thesis using that by blast
qed

lemma length_update_where: "length (update_where p f rows) = length rows"
  by (simp add: update_where_def)

lemma nth_update_where:
  "i < length rows \<Longrightarrow> update_where p f rows ! i = (if p (rows ! i) then f (rows ! i) else rows ! i)"
  by (simp add: update_where_def)


subsection \<open>Status-guarded updates\<close>

text \<open>
  C4, as the claim states it, fails on \<^verbatim>\<open>update_payment_intent_capture_state\<close>: the
  function writes \<^verbatim>\<open>status\<close> with \<^verbatim>\<open>WHERE id = :id\<close> only and takes no expected previous
  status. It moves an intent to \<^verbatim>\<open>succeeded\<close> from \<^verbatim>\<open>requires_capture\<close> and from
  \<^verbatim>\<open>cancelled\<close> alike, and when no row has the id it fails inside \<^verbatim>\<open>to_payment_intent\<close>
  with a \<^verbatim>\<open>TypeError\<close>, not with \<^verbatim>\<open>PaymentIntentCouldNotBeUpdatedError\<close>.
\<close>

theorem update_payment_intent_capture_state_unguarded:
  "map pi_status (payment_intents (snd (update_payment_intent_capture_state
       sample_intent_statuses 9 sample_payment_database ''pi_1'' ''succeeded'' 9)))
     = [''succeeded'']
   \<and> map pi_status (payment_intents (snd (update_payment_intent_capture_state
       sample_intent_statuses 9 cancelled_payment_database ''pi_1'' ''succeeded'' 9)))
     = [''succeeded'']
   \<and> fst (update_payment_intent_capture_state sample_intent_statuses 9
          orphan_payment_database ''pi_1'' ''succeeded'' 9) = Inl TypeError"
  by (simp add: update_payment_intent_capture_state_def sample_payment_database_def
      sample_intent_statuses_def
      cancelled_payment_database_def orphan_payment_database_def sample_payment_intent_def
      update_where_def returning_def fetch_one_def to_payment_intent_def Let_def)

text \<open>
  C4, as amended. \<^verbatim>\<open>update_payment_intent_status\<close> is the status-guarded update: it
  rewrites exactly the rows whose id is the given one and whose current status equals the
  caller-supplied \<^verbatim>\<open>previous_status\<close>. When there is such a row the call returns a
  row with the new status, unless the new status is no value of \<^verbatim>\<open>IntentStatus\<close>:
  then the rows are rewritten all the same and the conversion of the returned row raises
  \<^verbatim>\<open>ValueError\<close>. When there is none it raises
  \<^verbatim>\<open>PaymentIntentCouldNotBeUpdatedError\<close> and the store is unchanged.
  \<^verbatim>\<open>update_payment_intent_capture_state\<close> is keyed on the id alone: afterwards every
  row with that id carries the given status, whatever its status was.
\<close>

theorem update_payment_intent_status_guarded:
  assumes "update_payment_intent_status intent_statuses now db ident new_status
             previous_status = (res, db')"
  shows "((if \<exists>r \<in> set (payment_intents db). pi_id r = ident \<and> pi_status r = previous_status
          then if new_status \<in> set intent_statuses
               then \<exists>r. res = Inr r \<and> pi_id r = ident \<and> pi_status r = new_status
               else res = Inl ValueError
          else res = Inl PaymentIntentCouldNotBeUpdatedError \<and> db' = db)
       \<and> length (payment_intents db') = length (payment_intents db)
       \<and> (\<forall>i < length (payment_intents db).
             payment_intents db' ! i =
               (if pi_id (payment_intents db ! i) = ident
                     \<and> pi_status (payment_intents db ! i) = previous_status
                then (payment_intents db ! i)\<lparr>pi_status := new_status, pi_updated_at := Some now\<rparr>
                else payment_intents db ! i)))
       \<and> (\<forall>r \<in> set (payment_intents
                  (snd (update_payment_intent_capture_state intent_statuses now db ident
                          status captured_at))).
             pi_id r = ident \<longrightarrow> pi_status r = status)"
proof -
  let ?p = "\<lambda>r. pi_id r = ident \<and> pi_status r = previous_status"
  let ?f = "\<lambda>r. r\<lparr>pi_status := new_status, pi_updated_at := Some now\<rparr>"
  have db': "db' = db\<lparr>payment_intents := update_where ?p ?f (payment_intents db)\<rparr>"
    using assms by (auto simp: update_payment_intent_status_def Let_def split: option.splits)
  have res: "res = (case fetch_one (returning ?p ?f (payment_intents db)) of
                None \<Rightarrow> Inl PaymentIntentCouldNotBeUpdatedError
              | Some r \<Rightarrow> to_payment_intent intent_statuses (Some r))"
    using assms by (auto simp: update_payment_intent_status_def Let_def split: option.splits)
  have pos: "length (payment_intents db') = length (payment_intents db)
       \<and> (\<forall>i < length (payment_intents db).
             payment_intents db' ! i =
               (if ?p (payment_intents db ! i) then ?f (payment_intents db ! i)
                else payment_intents db ! i))"
    by (simp add: db' length_update_where nth_update_where)
  have guard: "if \<exists>r \<in> set (payment_intents db). ?p r
        then if new_status \<in> set intent_statuses
             then \<exists>r. res = Inr r \<and> pi_id r = ident \<and> pi_status r = new_status
             else res = Inl ValueError
        else res = Inl PaymentIntentCouldNotBeUpdatedError \<and> db' = db"
  proof (cases "\<exists>r \<in> set (payment_intents db). ?p r")
    case True
    then have "fetch_one (returning ?p ?f (payment_intents db)) \<noteq> None"
      using fetch_one_returning_None_iff[of ?p ?f "payment_intents db"] by blast
    then obtain r where r: "fetch_one (returning ?p ?f (payment_intents db)) = Some r" by blast
    from fetch_one_returning_Some[OF r] have "pi_id r = ident \<and> pi_status r = new_status" by auto
    with r res True show ?thesis by (simp add: to_payment_intent_def)
  next
    case False
    then have none: "fetch_one (returning ?p ?f (payment_intents db)) = None"
      using fetch_one_returning_None_iff[of ?p ?f "payment_intents db"] by blast
    have same: "update_where ?p ?f (payment_intents db) = payment_intents db"
      using False by (intro update_where_no_match) blast
    from False none res show ?thesis
      by (simp add: db' same)
  qed
  have capture: "\<forall>r \<in> set (payment_intents
                  (snd (update_payment_intent_capture_state intent_statuses now db ident
                          status captured_at))).
             pi_id r = ident \<longrightarrow> pi_status r = status"
  proof (intro ballI impI)
    let ?q = "\<lambda>r. pi_id r = ident"
    let ?g = "\<lambda>r. r\<lparr>pi_status := status, pi_captured_at := Some captured_at,
                       pi_updated_at := Some now\<rparr>"
    fix r
    assume mem: "r \<in> set (payment_intents
                  (snd (update_payment_intent_capture_state intent_statuses now db ident
                          status captured_at)))"
      and r: "pi_id r = ident"
    from mem have "r \<in> set (update_where ?q ?g (payment_intents db))"
      by (simp add: update_payment_intent_capture_state_def Let_def)
    then obtain r0 where "r = (if ?q r0 then ?g r0 else r0)" by (rule in_update_whereE)
    with r show "pi_status r = status" by (cases "?q r0") simp_all
  qed
  from guard pos capture show ?thesis by blast
qed

theorem update_payment_intent_status_guarded_witness:
  "(\<exists>r \<in> set (payment_intents sample_payment_database).
       pi_id r = ''pi_1'' \<and> pi_status r = ''requires_capture'')
   \<and> (\<exists>r. fst (update_payment_intent_status sample_intent_statuses 9
                  sample_payment_database ''pi_1'' ''capturing'' ''requires_capture'') = Inr r
            \<and> pi_id r = ''pi_1'' \<and> pi_status r = ''capturing'')
   \<and> fst (update_payment_intent_status sample_intent_statuses 9
            sample_payment_database ''pi_1'' ''captured'' ''requires_capture'') = Inl ValueError
   \<and> map pi_status (payment_intents (snd (update_payment_intent_status
            sample_intent_statuses 9 sample_payment_database ''pi_1'' ''captured''
            ''requires_capture''))) = [''captured'']
   \<and> \<not> (\<exists>r \<in> set (payment_intents cancelled_payment_database).
            pi_id r = ''pi_1'' \<and> pi_status r = ''requires_capture'')
   \<and> update_payment_intent_status sample_intent_statuses 9 cancelled_payment_database
          ''pi_1'' ''capturing'' ''requires_capture''
        = (Inl PaymentIntentCouldNotBeUpdatedError, cancelled_payment_database)"
proof -
  have c1: "\<exists>r \<in> set (payment_intents sample_payment_database).
       pi_id r = ''pi_1'' \<and> pi_status r = ''requires_capture''"
    by (simp add: sample_payment_database_def sample_payment_intent_def)
  have c2: "\<not> (\<exists>r \<in> set (payment_intents cancelled_payment_database).
            pi_id r = ''pi_1'' \<and> pi_status r = ''requires_capture'')"
    by (simp add: cancelled_payment_database_def sample_payment_intent_def)
  have m1: "''capturing'' \<in> set sample_intent_statuses"
    by (simp add: sample_intent_statuses_def)
  have m2: "''captured'' \<notin> set sample_intent_statuses"
    by (simp add: sample_intent_statuses_def)
  have len: "length (payment_intents sample_payment_database) = 1"
    and row: "payment_intents sample_payment_database ! 0 = sample_payment_intent"
    and sid: "pi_id sample_payment_intent = ''pi_1''"
    and sst: "pi_status sample_payment_intent = ''requires_capture''"
    by (simp_all add: sample_payment_database_def sample_payment_intent_def)
  have a: "\<exists>r. fst (update_payment_intent_status sample_intent_statuses 9
                  sample_payment_database ''pi_1'' ''capturing'' ''requires_capture'') = Inr r
            \<and> pi_id r = ''pi_1'' \<and> pi_status r = ''capturing''"
    using update_payment_intent_status_guarded
            [OF prod.collapse [symmetric], where intent_statuses = sample_intent_statuses
               and now = 9 and db = sample_payment_database
               and ident = "''pi_1''" and new_status = "''capturing''"
               and previous_status = "''requires_capture''"] c1 m1
    by simp
  have v: "fst (update_payment_intent_status sample_intent_statuses 9
            sample_payment_database ''pi_1'' ''captured'' ''requires_capture'') = Inl ValueError
        \<and> length (payment_intents (snd (update_payment_intent_status
            sample_intent_statuses 9 sample_payment_database ''pi_1'' ''captured''
            ''requires_capture''))) = 1
        \<and> payment_intents (snd (update_payment_intent_status
            sample_intent_statuses 9 sample_payment_database ''pi_1'' ''captured''
            ''requires_capture'')) ! 0
          = sample_payment_intent\<lparr>pi_status := ''captured'', pi_updated_at := Some 9\<rparr>"
    using update_payment_intent_status_guarded
            [OF prod.collapse [symmetric], where intent_statuses = sample_intent_statuses
               and now = 9 and db = sample_payment_database
               and ident = "''pi_1''" and new_status = "''captured''"
               and previous_status = "''requires_capture''"] c1 m2
    by (simp add: len row sid sst)
  have v2: "map pi_status (payment_intents (snd (update_payment_intent_status
            sample_intent_statuses 9 sample_payment_database ''pi_1'' ''captured''
            ''requires_capture''))) = [''captured'']"
  proof -
    obtain x where x: "payment_intents (snd (update_payment_intent_status
            sample_intent_statuses 9 sample_payment_database ''pi_1'' ''captured''
            ''requires_capture'')) = [x]"
      using v by (auto simp: length_Suc_conv)
    with v show ?thesis by simp
  qed
  have b: "fst (update_payment_intent_status sample_intent_statuses 9
                  cancelled_payment_database ''pi_1'' ''capturing'' ''requires_capture'')
             = Inl PaymentIntentCouldNotBeUpdatedError
           \<and> snd (update_payment_intent_status sample_intent_statuses 9
                  cancelled_payment_database ''pi_1'' ''capturing'' ''requires_capture'')
             = cancelled_payment_database"
    using update_payment_intent_status_guarded
            [OF prod.collapse [symmetric], where intent_statuses = sample_intent_statuses
               and now = 9 and db = cancelled_payment_database
               and ident = "''pi_1''" and new_status = "''capturing''"
               and previous_status = "''requires_capture''"] c2
    by simp
  from b have "update_payment_intent_status sample_intent_statuses 9
          cancelled_payment_database ''pi_1'' ''capturing'' ''requires_capture''
        = (Inl PaymentIntentCouldNotBeUpdatedError, cancelled_payment_database)"
    by (metis prod.collapse)
  with c1 c2 a v v2 show ?thesis by blast
qed

subsection \<open>The combined status update is all-or-nothing\<close>



subsection \<open>Idempotent replay of an adjustment\<close>



section \<open>Properties of the transfer submission\<close>

subsection \<open>Unfolding sets and store lemmas\<close>

lemmas sample_defs = sample_environment_def sample_transfer_def sample_payment_account_def
  sample_stripe_managed_account_def store_of_def sample_store_def sample_request_def
  retry_request_def failed_disabled_store_def submitted_store_def zero_amount_store_def
  dasher_payment_account_def topped_up_store_def
  bodyless_environment_def unreachable_environment_def submitting_store_def
  submitting_stripe_transfer_def

lemmas store_defs = get_transfer_by_id_def update_transfer_by_id_def
  get_payment_account_by_id_def get_stripe_managed_account_by_id_def
  get_latest_stripe_transfer_by_transfer_id_def
  get_all_ongoing_stripe_transfers_by_transfer_id_def next_id_def create_stripe_transfer_def
  update_stripe_transfer_by_id_def get_managed_account_transfer_by_transfer_id_def
  update_managed_account_transfer_by_id_def create_managed_account_transfer_def
  call_gateway_def fetch_one_def returning_def update_where_def

lemmas processor_defs = lookup_stripe_managed_account_def handle_dummy_transfer_def
  get_latest_transfer_submission_def is_processing_or_processed_for_method_def
  has_stripe_managed_account_def validate_payment_account_of_managed_account_transfer_def
  amount_still_needed_def managed_account_balance_check_def get_stripe_account_id_def
  submit_managed_account_transfer_def get_stripe_transfer_metadata_def
  create_for_managed_account_def submission_error_code_of_def
  extract_failure_code_from_exception_message_def handle_stripe_error_def private_submit_stripe_transfer_def
  submit_stripe_transfer_attempt_def reset_transfer_for_submission_def
  submit_stripe_transfer_def execute_validated_def execute_def
  truthy_int_def truthy_str_def truthy_bool_def truthy_code_def coroutine_object_truthy_def

lemma fetch_one_map: "fetch_one (map f xs) = map_option f (fetch_one xs)"
  by (cases xs) (simp_all add: fetch_one_def)

lemma filter_update_where:
  assumes "\<And>r. p (f r) = p r"
  shows "filter p (update_where p f rows) = map f (filter p rows)"
  by (induction rows) (simp_all add: update_where_def assms)

lemma get_transfer_after_update:
  assumes "\<And>t. tr_id (f t) = tr_id t"
  shows "get_transfer_by_id (snd (update_transfer_by_id s transfer_id f)) transfer_id
         = map_option f (get_transfer_by_id s transfer_id)"
proof -
  have "filter (\<lambda>t. tr_id t = transfer_id)
          (update_where (\<lambda>t. tr_id t = transfer_id) f (transfers s))
        = map f (filter (\<lambda>t. tr_id t = transfer_id) (transfers s))"
    by (rule filter_update_where) (simp add: assms)
  then show ?thesis
    by (simp add: get_transfer_by_id_def update_transfer_by_id_def fetch_one_map)
qed

lemma update_transfer_keeps_rest:
  "payment_accounts (snd (update_transfer_by_id s i f)) = payment_accounts s"
  "stripe_managed_accounts (snd (update_transfer_by_id s i f)) = stripe_managed_accounts s"
  "stripe_transfers (snd (update_transfer_by_id s i f)) = stripe_transfers s"
  "managed_account_transfers (snd (update_transfer_by_id s i f)) = managed_account_transfers s"
  "gateway_calls (snd (update_transfer_by_id s i f)) = gateway_calls s"
  by (simp_all add: update_transfer_by_id_def)


subsection \<open>Reconciliation of the constituent transactions\<close>

text \<open>
  C1. \<^verbatim>\<open>_execute\<close> binds \<^verbatim>\<open>transactions\<close> to the empty list, so whenever the
  transfer and its payment account are found the call raises
  \<^verbatim>\<open>TRANSFER_INVALID_STATE\<close> and leaves the transfer with status \<^verbatim>\<open>ERROR\<close> and status
  code \<^verbatim>\<open>ERROR_INVALID_STATE\<close>; nothing is submitted and the gateway is not called. No
  call at all raises \<^verbatim>\<open>MISMATCHED_TRANSFER_AMOUNT\<close>.
\<close>

theorem execute_always_invalid_state:
  assumes "get_transfer_by_id s (req_transfer_id request) = Some transfer"
    and "tr_payment_account_id transfer = Some account_id" and "account_id \<noteq> 0"
    and "get_payment_account_by_id s account_id = Some payment_account"
  shows "fst (execute env now request s) = Inl (PayoutError TRANSFER_INVALID_STATE)
       \<and> get_transfer_by_id (snd (execute env now request s)) (req_transfer_id request)
           = Some (transfer\<lparr>tr_status := ERROR,
                             tr_status_code := Some (Transfer_status_code ERROR_INVALID_STATE)\<rparr>)
       \<and> gateway_calls (snd (execute env now request s)) = gateway_calls s
       \<and> stripe_transfers (snd (execute env now request s)) = stripe_transfers s
       \<and> (\<forall>env' now' request' s'.
             fst (execute env' now' request' s') \<noteq> Inl (PayoutError MISMATCHED_TRANSFER_AMOUNT))"
proof -
  let ?f = "\<lambda>t. t\<lparr>tr_status := ERROR,
                    tr_status_code := Some (Transfer_status_code ERROR_INVALID_STATE)\<rparr>"
  have ex: "execute env now request s
            = (Inl (PayoutError TRANSFER_INVALID_STATE),
               snd (update_transfer_by_id s (req_transfer_id request) ?f))"
    using assms
    by (simp add: execute_def Let_def truthy_int_def)
  have never: "fst (execute env' now' request' s') \<noteq> Inl (PayoutError MISMATCHED_TRANSFER_AMOUNT)"
    for env' now' request' s'
    by (simp add: execute_def Let_def split: option.splits)
  show ?thesis
    using assms(1) never
    by (simp add: ex get_transfer_after_update update_transfer_keeps_rest)
qed

theorem execute_always_invalid_state_witness:
  "get_transfer_by_id sample_store (req_transfer_id sample_request) = Some sample_transfer
   \<and> tr_payment_account_id sample_transfer = Some 10
   \<and> get_payment_account_by_id sample_store 10 = Some sample_payment_account
   \<and> fst (execute sample_environment 9 sample_request sample_store)
       = Inl (PayoutError TRANSFER_INVALID_STATE)
   \<and> get_transfer_by_id (snd (execute sample_environment 9 sample_request sample_store)) 1
       = Some (sample_transfer\<lparr>tr_status := ERROR,
                 tr_status_code := Some (Transfer_status_code ERROR_INVALID_STATE)\<rparr>)"
proof -
  have h1: "get_transfer_by_id sample_store (req_transfer_id sample_request)
            = Some sample_transfer"
    by (simp add: sample_defs store_defs)
  have h2: "tr_payment_account_id sample_transfer = Some 10"
    by (simp add: sample_defs)
  have h3: "(10::int) \<noteq> 0" by simp
  have h4: "get_payment_account_by_id sample_store 10 = Some sample_payment_account"
    by (simp add: sample_defs store_defs)
  have r: "req_transfer_id sample_request = 1" by (simp add: sample_defs)
  from execute_always_invalid_state [OF h1 h2 h3 h4, of sample_environment 9] h1 h2 h4
  show ?thesis by (simp add: r)
qed

subsection \<open>The duplicate-submission guard\<close>

text \<open>
  C2. The code does not do what the claim states. A transfer with \<^verbatim>\<open>submitted_at\<close>
  set, submitted without \<^verbatim>\<open>retry\<close>, is refused with \<^verbatim>\<open>TRANSFER_INVALID_STATE\<close>
  and not with \<^verbatim>\<open>DUPLICATE_TRANSFER\<close>, and its row does not stay as it was: the status
  goes from \<^verbatim>\<open>NEW\<close> to \<^verbatim>\<open>ERROR\<close> and the status code is set. \<^verbatim>\<open>_execute\<close> binds
  \<^verbatim>\<open>transactions\<close> to the empty list and so leaves through the reconciliation step,
  before the guard; no call at all raises \<^verbatim>\<open>DUPLICATE_TRANSFER\<close>.
\<close>

theorem execute_submitted_transfer_invalid_state:
  "map tr_submitted_at (transfers submitted_store) = [Some 5]
   \<and> req_retry sample_request = Some False
   \<and> fst (execute sample_environment 9 sample_request submitted_store)
       = Inl (PayoutError TRANSFER_INVALID_STATE)
   \<and> map tr_status (transfers submitted_store) = [NEW]
   \<and> map tr_status (transfers (snd (execute sample_environment 9 sample_request
                                      submitted_store))) = [ERROR]
   \<and> map tr_status_code (transfers (snd (execute sample_environment 9 sample_request
                                           submitted_store)))
       = [Some (Transfer_status_code ERROR_INVALID_STATE)]
   \<and> (\<forall>env now request s.
         fst (execute env now request s) \<noteq> Inl (PayoutError DUPLICATE_TRANSFER))"
proof -
  have run: "execute sample_environment 9 sample_request submitted_store
             = (Inl (PayoutError TRANSFER_INVALID_STATE),
                submitted_store
                  \<lparr>transfers :=
                     [sample_transfer
                        \<lparr>tr_submitted_at := Some 5, tr_status := ERROR,
                         tr_status_code := Some (Transfer_status_code ERROR_INVALID_STATE)\<rparr>]\<rparr>)"
    by (simp add: execute_def Let_def truthy_int_def sample_defs store_defs)
  have never: "fst (execute env now request s) \<noteq> Inl (PayoutError DUPLICATE_TRANSFER)"
    for env now request s
    by (simp add: execute_def Let_def split: option.splits)
  have before: "map tr_submitted_at (transfers submitted_store) = [Some 5]
                \<and> req_retry sample_request = Some False
                \<and> map tr_status (transfers submitted_store) = [NEW]"
    by (simp add: sample_defs)
  have after: "fst (execute sample_environment 9 sample_request submitted_store)
       = Inl (PayoutError TRANSFER_INVALID_STATE)
   \<and> map tr_status (transfers (snd (execute sample_environment 9 sample_request
                                      submitted_store))) = [ERROR]
   \<and> map tr_status_code (transfers (snd (execute sample_environment 9 sample_request
                                           submitted_store)))
       = [Some (Transfer_status_code ERROR_INVALID_STATE)]"
    unfolding run by simp
  from never before after show ?thesis by simp
qed

subsection \<open>Transfers of amount zero\<close>

text \<open>
  C3. The code does not do what the claim states. A transfer of amount zero is not paid:
  the call raises \<^verbatim>\<open>TRANSFER_INVALID_STATE\<close>, the transfer ends with status
  \<^verbatim>\<open>ERROR\<close> and \<^verbatim>\<open>submitted_at\<close> stays unset; the gateway is not called.
  \<^verbatim>\<open>_execute\<close> binds \<^verbatim>\<open>transactions\<close> to the empty list and so leaves through the
  reconciliation step, before the dummy-transfer step; no call at all returns normally.
\<close>

theorem execute_zero_amount_invalid_state:
  "map tr_amount (transfers zero_amount_store) = [0]
   \<and> fst (execute sample_environment 9 sample_request zero_amount_store)
       = Inl (PayoutError TRANSFER_INVALID_STATE)
   \<and> map tr_status (transfers (snd (execute sample_environment 9 sample_request
                                      zero_amount_store))) = [ERROR]
   \<and> map tr_submitted_at (transfers (snd (execute sample_environment 9 sample_request
                                            zero_amount_store))) = [None]
   \<and> gateway_calls (snd (execute sample_environment 9 sample_request zero_amount_store)) = []
   \<and> (\<forall>env now request s. fst (execute env now request s) \<noteq> Inr ())"
proof -
  have run: "execute sample_environment 9 sample_request zero_amount_store
             = (Inl (PayoutError TRANSFER_INVALID_STATE),
                zero_amount_store
                  \<lparr>transfers :=
                     [sample_transfer
                        \<lparr>tr_amount := 0, tr_status := ERROR,
                         tr_status_code := Some (Transfer_status_code ERROR_INVALID_STATE)\<rparr>]\<rparr>)"
    by (simp add: execute_def Let_def truthy_int_def sample_defs store_defs)
  have never: "fst (execute env now request s) \<noteq> Inr ()" for env now request s
    by (simp add: execute_def Let_def split: option.splits)
  have before: "map tr_amount (transfers zero_amount_store) = [0]
                \<and> gateway_calls zero_amount_store = []"
    by (simp add: sample_defs)
  have after: "fst (execute sample_environment 9 sample_request zero_amount_store)
       = Inl (PayoutError TRANSFER_INVALID_STATE)
   \<and> map tr_status (transfers (snd (execute sample_environment 9 sample_request
                                      zero_amount_store))) = [ERROR]
   \<and> map tr_submitted_at (transfers (snd (execute sample_environment 9 sample_request
                                            zero_amount_store))) = [None]
   \<and> gateway_calls (snd (execute sample_environment 9 sample_request zero_amount_store)) = []"
    unfolding run by (simp add: sample_defs)
  from never before after show ?thesis by simp
qed

subsection \<open>What the submission leaves untouched\<close>

lemma update_transfer_ids:
  assumes "\<And>t. tr_id (f t) = tr_id t"
  shows "map tr_id (transfers (snd (update_transfer_by_id s i f))) = map tr_id (transfers s)"
  by (simp add: update_transfer_by_id_def update_where_def assms comp_def)

lemma get_transfer_None_iff:
  "get_transfer_by_id s i = None \<longleftrightarrow> i \<notin> set (map tr_id (transfers s))"
  by (auto simp: get_transfer_by_id_def fetch_one_None_iff filter_empty_conv)

lemma update_managed_account_transfer_frame:
  "transfers (snd (update_managed_account_transfer_by_id s i f)) = transfers s"
  "stripe_transfers (snd (update_managed_account_transfer_by_id s i f)) = stripe_transfers s"
  by (simp_all add: update_managed_account_transfer_by_id_def)

lemma update_stripe_transfer_frame:
  "transfers (snd (update_stripe_transfer_by_id s i f)) = transfers s"
  by (simp add: update_stripe_transfer_by_id_def)

lemma call_gateway_frame:
  "transfers (call_gateway c s) = transfers s"
  "stripe_transfers (call_gateway c s) = stripe_transfers s"
  by (simp_all add: call_gateway_def)

lemma submit_managed_account_transfer_frame:
  "transfers (snd (submit_managed_account_transfer env now s m payment_account)) = transfers s
   \<and> stripe_transfers (snd (submit_managed_account_transfer env now s m payment_account))
       = stripe_transfers s"
  by (simp add: submit_managed_account_transfer_def Let_def call_gateway_frame
      update_managed_account_transfer_frame split: option.splits sum.splits)

lemma create_for_managed_account_frame:
  "transfers (snd (create_for_managed_account env now s amount transfer_id payment_account
                     stripe_account_id statement_descriptor target_type target_id))
     = transfers s
   \<and> stripe_transfers (snd (create_for_managed_account env now s amount transfer_id
                              payment_account stripe_account_id statement_descriptor
                              target_type target_id))
     = stripe_transfers s"
proof -
  let ?first = "case get_managed_account_transfer_by_transfer_id s transfer_id of
                  None \<Rightarrow> (Inr (), s)
                | Some m \<Rightarrow>
                    if mat_amount m > 0
                    then submit_managed_account_transfer env now s m payment_account
                    else (Inr (), s)"
  have first: "transfers (snd ?first) = transfers s
               \<and> stripe_transfers (snd ?first) = stripe_transfers s"
    using submit_managed_account_transfer_frame
    by (simp split: option.splits)
  obtain r s1 where f: "?first = (r, s1)" by (cases ?first)
  with first have s1: "transfers s1 = transfers s" "stripe_transfers s1 = stripe_transfers s"
    by simp_all
  show ?thesis
    unfolding create_for_managed_account_def Let_def f
    by (simp add: s1 call_gateway_frame split: sum.splits option.splits)
qed

lemma handle_stripe_error_frame:
  "transfers (snd (handle_stripe_error env s stripe_transfer payment_account
                     stripe_account_id e)) = transfers s"
proof (cases "se_json_body e")
  case None
  then show ?thesis by (simp add: handle_stripe_error_def)
next
  case (Some error_info)
  let ?f = "\<lambda>r. r\<lparr>st_country_shortname := get_country_shortname env s payment_account,
                    st_stripe_account_id := Some stripe_account_id,
                    st_stripe_account_type := Some ACCOUNT_TYPE_STRIPE_MANAGED_ACCOUNT,
                    st_stripe_status := STRIPE_TRANSFER_FAILED_STATUS env,
                    st_stripe_request_id := se_request_id e,
                    st_submission_status :=
                      Some (if truthy_str (se_request_id e) then SUBMITTED
                            else FAILED_TO_SUBMIT),
                    st_submission_error_type := ei_type error_info,
                    st_submission_error_code := submission_error_code_of env error_info\<rparr>"
  obtain u s1 where u: "update_stripe_transfer_by_id s (st_id stripe_transfer) ?f = (u, s1)"
    by (rule prod.exhaust)
  from u have "s1 = snd (update_stripe_transfer_by_id s (st_id stripe_transfer) ?f)"
    by simp
  then have "transfers s1 = transfers s" by (simp add: update_stripe_transfer_frame)
  then show ?thesis
    unfolding handle_stripe_error_def Let_def Some option.case u
    by (simp split: option.splits)
qed

lemma private_submit_stripe_transfer_ids:
  "map tr_id (transfers (snd (private_submit_stripe_transfer env now s stripe_transfer
                                payment_account amount transfer_id statement_descriptor
                                target_type target_id)))
   = map tr_id (transfers s)"
proof (cases "truthy_str (st_stripe_id stripe_transfer)")
  case True
  then show ?thesis by (simp add: private_submit_stripe_transfer_def)
next
  case False
  show ?thesis
  proof (cases "get_stripe_account_id s payment_account")
    case (Inl e)
    with False show ?thesis by (simp add: private_submit_stripe_transfer_def)
  next
    case (Inr stripe_account_id)
    show ?thesis
    proof (cases "pa_account_type payment_account = Some ACCOUNT_TYPE_STRIPE_MANAGED_ACCOUNT")
      case nt: False
      with False Inr show ?thesis by (simp add: private_submit_stripe_transfer_def)
    next
      case True
      obtain r s1 where c: "create_for_managed_account env now s amount transfer_id
                              payment_account stripe_account_id statement_descriptor
                              target_type target_id = (r, s1)"
        by (rule prod.exhaust)
      from create_for_managed_account_frame [of env now s amount transfer_id payment_account
             stripe_account_id statement_descriptor target_type target_id] c
      have s1: "transfers s1 = transfers s" by simp
      show ?thesis
      proof (cases r)
        case (Inl ex)
        show ?thesis
        proof (cases ex)
          case (StripeError e)
          with False Inr True c Inl show ?thesis
            by (simp add: private_submit_stripe_transfer_def handle_stripe_error_frame s1)
        qed (use False Inr True c Inl s1 in \<open>simp_all add: private_submit_stripe_transfer_def\<close>)
      next
        case (Inr payout_of_stripe)
        with False \<open>get_stripe_account_id s payment_account = Inr stripe_account_id\<close> True c
        show ?thesis
          by (auto simp: private_submit_stripe_transfer_def update_transfer_ids
              update_stripe_transfer_by_id_def s1 split: option.splits)
      qed
    qed
  qed
qed

lemma submit_stripe_transfer_attempt_ids:
  "map tr_id (transfers (snd (submit_stripe_transfer_attempt env now s transfer_id
                                payment_account amount statement_descriptor target_type
                                target_id submitted_by)))
   = map tr_id (transfers s)"
proof -
  obtain st s1 where c: "create_stripe_transfer s transfer_id SUBMITTING [] = (st, s1)"
    by (rule prod.exhaust)
  then have s1: "transfers s1 = transfers s"
    by (auto simp: create_stripe_transfer_def Let_def)
  obtain r s2 where p: "private_submit_stripe_transfer env now s1 st payment_account amount
                          transfer_id statement_descriptor target_type target_id = (r, s2)"
    by (rule prod.exhaust)
  from private_submit_stripe_transfer_ids [of env now s1 st payment_account amount
         transfer_id statement_descriptor target_type target_id] p s1
  have s2: "map tr_id (transfers s2) = map tr_id (transfers s)" by simp
  show ?thesis
    by (cases r) (simp_all add: submit_stripe_transfer_attempt_def c p s2 update_transfer_ids)
qed


subsection \<open>Classification of gateway errors\<close>

lemma fetch_one_returning_exists:
  assumes "r0 \<in> set rows" and "p r0"
  shows "\<exists>r1 \<in> set rows. p r1 \<and> fetch_one (returning p f rows) = Some (f r1)"
proof -
  from assms have "fetch_one (returning p f rows) \<noteq> None"
    using fetch_one_returning_None_iff [of p f rows] by blast
  then obtain u where u: "fetch_one (returning p f rows) = Some u" by blast
  from fetch_one_returning_Some [OF u] u show ?thesis by blast
qed

lemma update_where_member:
  assumes "r0 \<in> set rows" and "p r0"
  shows "f r0 \<in> set (update_where p f rows)"
proof -
  from assms have "(if p r0 then f r0 else r0) \<in> (\<lambda>r. if p r then f r else r) ` set rows"
    by (intro imageI)
  with assms(2) show ?thesis by (simp add: update_where_def)
qed

text \<open>
  A gateway error that carries a body is classified as follows. The submission record is
  written with \<^verbatim>\<open>submission_status\<close> \<^verbatim>\<open>SUBMITTED\<close> if the error carries a request id
  and \<^verbatim>\<open>FAILED_TO_SUBMIT\<close> otherwise, and a \<^verbatim>\<open>PayoutError\<close> is raised whose code is,
  in this order: \<^verbatim>\<open>STRIPE_PAYOUT_ACCT_MISSING\<close> for the error code
  \<^verbatim>\<open>NO_EXT_ACCOUNT_IN_CURRENCY\<close> (given by the gateway or recovered from the message),
  \<^verbatim>\<open>STRIPE_PAYOUT_DISALLOWED\<close> for \<^verbatim>\<open>PAYOUT_NOT_ALLOWED\<close>,
  \<^verbatim>\<open>STRIPE_INVALID_REQUEST_ERROR\<close> for an error of type \<^verbatim>\<open>INVALID_REQUEST_ERROR\<close>, and
  \<^verbatim>\<open>STRIPE_SUBMISSION_ERROR\<close> otherwise.
\<close>

lemma stripe_error_with_body_classified:
  assumes "\<not> truthy_str (st_stripe_id stripe_transfer)"
    and "get_stripe_account_id s payment_account = Inr stripe_account_id"
    and "pa_account_type payment_account = Some ACCOUNT_TYPE_STRIPE_MANAGED_ACCOUNT"
    and "fst (create_for_managed_account env now s amount transfer_id payment_account
                stripe_account_id statement_descriptor target_type target_id)
         = Inl (StripeError e)"
    and "se_json_body e = Some error_info"
    and "st_id stripe_transfer \<in> set (map st_id (stripe_transfers s))"
  shows "fst (private_submit_stripe_transfer env now s stripe_transfer payment_account amount
                transfer_id statement_descriptor target_type target_id)
         = Inl (PayoutError
                 (if submission_error_code_of env error_info = Some NO_EXT_ACCOUNT_IN_CURRENCY
                  then STRIPE_PAYOUT_ACCT_MISSING
                  else if submission_error_code_of env error_info = Some PAYOUT_NOT_ALLOWED
                  then STRIPE_PAYOUT_DISALLOWED
                  else if ei_type error_info = Some INVALID_REQUEST_ERROR
                  then STRIPE_INVALID_REQUEST_ERROR
                  else STRIPE_SUBMISSION_ERROR))
       \<and> (\<exists>r \<in> set (stripe_transfers
                       (snd (private_submit_stripe_transfer env now s stripe_transfer
                               payment_account amount transfer_id statement_descriptor
                               target_type target_id))).
             st_id r = st_id stripe_transfer)
       \<and> (\<forall>r \<in> set (stripe_transfers
                       (snd (private_submit_stripe_transfer env now s stripe_transfer
                               payment_account amount transfer_id statement_descriptor
                               target_type target_id))).
             st_id r = st_id stripe_transfer \<longrightarrow>
               st_submission_status r
                 = Some (if truthy_str (se_request_id e) then SUBMITTED else FAILED_TO_SUBMIT)
               \<and> st_stripe_request_id r = se_request_id e)"
proof -
  obtain r s1 where c: "create_for_managed_account env now s amount transfer_id
                          payment_account stripe_account_id statement_descriptor
                          target_type target_id = (r, s1)"
    by (rule prod.exhaust)
  with assms(4) have r: "r = Inl (StripeError e)" by simp
  from create_for_managed_account_frame [of env now s amount transfer_id payment_account
         stripe_account_id statement_descriptor target_type target_id] c
  have s1: "stripe_transfers s1 = stripe_transfers s" by simp
  let ?p = "\<lambda>r. st_id r = st_id stripe_transfer"
  let ?f = "\<lambda>r. r\<lparr>st_country_shortname := get_country_shortname env s1 payment_account,
                    st_stripe_account_id := Some stripe_account_id,
                    st_stripe_account_type := Some ACCOUNT_TYPE_STRIPE_MANAGED_ACCOUNT,
                    st_stripe_status := STRIPE_TRANSFER_FAILED_STATUS env,
                    st_stripe_request_id := se_request_id e,
                    st_submission_status :=
                      Some (if truthy_str (se_request_id e) then SUBMITTED
                            else FAILED_TO_SUBMIT),
                    st_submission_error_type := ei_type error_info,
                    st_submission_error_code := submission_error_code_of env error_info\<rparr>"
  let ?s2 = "s1\<lparr>stripe_transfers := update_where ?p ?f (stripe_transfers s1)\<rparr>"
  have run: "private_submit_stripe_transfer env now s stripe_transfer payment_account amount
               transfer_id statement_descriptor target_type target_id
             = handle_stripe_error env s1 stripe_transfer payment_account stripe_account_id e"
    using assms(1-3) by (simp add: private_submit_stripe_transfer_def c r)
  from assms(6) obtain r0 where r0: "r0 \<in> set (stripe_transfers s1)" "?p r0"
    unfolding s1 by auto
  from fetch_one_returning_exists [where p = ?p and f = ?f, OF r0]
  obtain r1 where r1: "?p r1"
    and got: "fetch_one (returning ?p ?f (stripe_transfers s1)) = Some (?f r1)"
    by blast
  have upd: "update_stripe_transfer_by_id s1 (st_id stripe_transfer) ?f = (Some (?f r1), ?s2)"
    by (simp add: update_stripe_transfer_by_id_def got)
  have h: "handle_stripe_error env s1 stripe_transfer payment_account stripe_account_id e
           = (Inl (PayoutError
                 (if submission_error_code_of env error_info = Some NO_EXT_ACCOUNT_IN_CURRENCY
                  then STRIPE_PAYOUT_ACCT_MISSING
                  else if submission_error_code_of env error_info = Some PAYOUT_NOT_ALLOWED
                  then STRIPE_PAYOUT_DISALLOWED
                  else if ei_type error_info = Some INVALID_REQUEST_ERROR
                  then STRIPE_INVALID_REQUEST_ERROR
                  else STRIPE_SUBMISSION_ERROR)), ?s2)"
    by (simp add: handle_stripe_error_def Let_def upd assms(5))
  have ex: "\<exists>r \<in> set (stripe_transfers ?s2). ?p r"
  proof -
    from update_where_member [where p = ?p and f = ?f, OF r0]
    have m: "?f r0 \<in> set (stripe_transfers ?s2)" by simp
    have pp: "?p (?f r0)" using r0(2) by simp
    from pp m show ?thesis by (rule bexI)
  qed
  have all: "\<forall>r \<in> set (stripe_transfers ?s2). ?p r \<longrightarrow>
               st_submission_status r
                 = Some (if truthy_str (se_request_id e) then SUBMITTED else FAILED_TO_SUBMIT)
               \<and> st_stripe_request_id r = se_request_id e"
  proof (intro ballI impI)
    fix x assume mem: "x \<in> set (stripe_transfers ?s2)" and px: "?p x"
    from mem have "x \<in> set (update_where ?p ?f (stripe_transfers s1))" by simp
    then obtain x0 where "x = (if ?p x0 then ?f x0 else x0)" by (rule in_update_whereE)
    with px show "st_submission_status x
                 = Some (if truthy_str (se_request_id e) then SUBMITTED else FAILED_TO_SUBMIT)
               \<and> st_stripe_request_id x = se_request_id e"
      by (cases "?p x0") simp_all
  qed
  from ex all show ?thesis unfolding run h by simp
qed

text \<open>
  C6. The code does not do what the claim states for a gateway error without a body. The
  payout creation raises a \<^verbatim>\<open>StripeError\<close> whose \<^verbatim>\<open>json_body\<close> is \<^verbatim>\<open>None\<close> and
  which has no request id. The claim has the submission record written with
  \<^verbatim>\<open>FAILED_TO_SUBMIT\<close> and \<^verbatim>\<open>STRIPE_SUBMISSION_ERROR\<close> raised to the caller. The
  \<^verbatim>\<open>except StripeError\<close> clause raises \<^verbatim>\<open>AttributeError\<close> on its first statement
  instead: the submission record stays \<^verbatim>\<open>SUBMITTING\<close>, with no request id and no error
  code, and \<^verbatim>\<open>submit_stripe_transfer\<close> takes the \<^verbatim>\<open>AttributeError\<close> for an
  unexpected exception, sets the transfer to \<^verbatim>\<open>ERROR\<close> with \<^verbatim>\<open>UNKNOWN_ERROR\<close> and
  returns normally.
\<close>

theorem stripe_error_without_body_unclassified:
  "fst (create_for_managed_account bodyless_environment 9 submitting_store 500 1
          sample_payment_account ''acct_1'' ''payout'' None None)
     = Inl (StripeError \<lparr>se_json_body = None, se_request_id = None\<rparr>)
   \<and> fst (private_submit_stripe_transfer bodyless_environment 9 submitting_store
            submitting_stripe_transfer sample_payment_account 500 1 ''payout'' None None)
       = Inl AttributeError
   \<and> map st_submission_status
        (stripe_transfers
           (snd (private_submit_stripe_transfer bodyless_environment 9 submitting_store
                   submitting_stripe_transfer sample_payment_account 500 1 ''payout''
                   None None)))
       = [Some SUBMITTING]
   \<and> fst (submit_stripe_transfer bodyless_environment 9 sample_store 1
            sample_payment_account 500 ''payout'' None None None) = Inr ()
   \<and> map st_submission_status
        (stripe_transfers
           (snd (submit_stripe_transfer bodyless_environment 9 sample_store 1
                   sample_payment_account 500 ''payout'' None None None)))
       = [Some SUBMITTING]
   \<and> map st_submission_error_code
        (stripe_transfers
           (snd (submit_stripe_transfer bodyless_environment 9 sample_store 1
                   sample_payment_account 500 ''payout'' None None None)))
       = [None]
   \<and> map tr_status
        (transfers
           (snd (submit_stripe_transfer bodyless_environment 9 sample_store 1
                   sample_payment_account 500 ''payout'' None None None)))
       = [ERROR]
   \<and> map tr_status_code
        (transfers
           (snd (submit_stripe_transfer bodyless_environment 9 sample_store 1
                   sample_payment_account 500 ''payout'' None None None)))
       = [Some (Transfer_status_code UNKNOWN_ERROR)]"
proof -
  have c: "create_for_managed_account bodyless_environment 9 submitting_store 500 1
             sample_payment_account ''acct_1'' ''payout'' None None
           = (Inl (StripeError \<lparr>se_json_body = None, se_request_id = None\<rparr>),
              call_gateway
                (Create_payout 500 ''usd'' ''US'' ''acct_1'' ''payout''
                   \<lparr>md_transfer_id = 1, md_account_id = 10, md_target_type = None,
                    md_target_id = None\<rparr>) submitting_store)"
    by (simp add: sample_defs store_defs processor_defs Let_def)
  have p: "private_submit_stripe_transfer bodyless_environment 9 submitting_store
             submitting_stripe_transfer sample_payment_account 500 1 ''payout'' None None
           = (Inl AttributeError,
              call_gateway
                (Create_payout 500 ''usd'' ''US'' ''acct_1'' ''payout''
                   \<lparr>md_transfer_id = 1, md_account_id = 10, md_target_type = None,
                    md_target_id = None\<rparr>) submitting_store)"
    by (simp add: sample_defs store_defs processor_defs Let_def)
  have rows: "map st_submission_status (stripe_transfers submitting_store)
              = [Some SUBMITTING]"
    by (simp add: sample_defs store_defs Let_def)
  have run: "fst (submit_stripe_transfer bodyless_environment 9 sample_store 1
               sample_payment_account 500 ''payout'' None None None) = Inr ()
       \<and> map st_submission_status
            (stripe_transfers
               (snd (submit_stripe_transfer bodyless_environment 9 sample_store 1
                       sample_payment_account 500 ''payout'' None None None)))
           = [Some SUBMITTING]
       \<and> map st_submission_error_code
            (stripe_transfers
               (snd (submit_stripe_transfer bodyless_environment 9 sample_store 1
                       sample_payment_account 500 ''payout'' None None None)))
           = [None]
       \<and> map tr_status
            (transfers
               (snd (submit_stripe_transfer bodyless_environment 9 sample_store 1
                       sample_payment_account 500 ''payout'' None None None)))
           = [ERROR]
       \<and> map tr_status_code
            (transfers
               (snd (submit_stripe_transfer bodyless_environment 9 sample_store 1
                       sample_payment_account 500 ''payout'' None None None)))
           = [Some (Transfer_status_code UNKNOWN_ERROR)]"
    by (simp add: sample_defs store_defs processor_defs Let_def)
  from run show ?thesis by (simp add: c p rows call_gateway_def)
qed

subsection \<open>Unexpected exceptions are absorbed\<close>

text \<open>
  C7. When the \<^verbatim>\<open>try\<close> block of \<^verbatim>\<open>submit_stripe_transfer\<close> raises an exception that
  is not a \<^verbatim>\<open>PayoutError\<close>, \<^verbatim>\<open>submit_stripe_transfer\<close> returns normally and the
  transfer is left with status \<^verbatim>\<open>ERROR\<close> and status code \<^verbatim>\<open>UNKNOWN_ERROR\<close>.
\<close>

theorem submit_stripe_transfer_absorbs_unexpected:
  assumes "get_transfer_by_id s transfer_id = Some transfer"
    and "fst (submit_stripe_transfer_attempt env now
                (reset_transfer_for_submission s transfer_id) transfer_id payment_account
                amount statement_descriptor target_type target_id submitted_by) = Inl e"
    and "\<forall>error_code. e \<noteq> PayoutError error_code"
  shows "fst (submit_stripe_transfer env now s transfer_id payment_account amount
                statement_descriptor target_type target_id submitted_by) = Inr ()
       \<and> (\<exists>t. get_transfer_by_id
                 (snd (submit_stripe_transfer env now s transfer_id payment_account amount
                         statement_descriptor target_type target_id submitted_by))
                 transfer_id = Some t
              \<and> tr_status t = ERROR
              \<and> tr_status_code t = Some (Transfer_status_code UNKNOWN_ERROR))"
proof -
  let ?s0 = "reset_transfer_for_submission s transfer_id"
  let ?f = "\<lambda>t. t\<lparr>tr_status := ERROR,
                    tr_status_code := Some (Transfer_status_code UNKNOWN_ERROR)\<rparr>"
  obtain r s1 where a: "submit_stripe_transfer_attempt env now ?s0 transfer_id
                          payment_account amount statement_descriptor target_type
                          target_id submitted_by = (r, s1)"
    by (rule prod.exhaust)
  with assms(2) have r: "r = Inl e" by simp
  have run: "submit_stripe_transfer env now s transfer_id payment_account amount
               statement_descriptor target_type target_id submitted_by
             = (Inr (), snd (update_transfer_by_id s1 transfer_id ?f))"
    using assms(3)
    by (cases e) (simp_all add: submit_stripe_transfer_def Let_def a r)
  have "map tr_id (transfers ?s0) = map tr_id (transfers s)"
    by (simp add: reset_transfer_for_submission_def update_transfer_ids)
  moreover from submit_stripe_transfer_attempt_ids [of env now ?s0 transfer_id
      payment_account amount statement_descriptor target_type target_id submitted_by] a
  have "map tr_id (transfers s1) = map tr_id (transfers ?s0)" by simp
  ultimately have ids: "map tr_id (transfers s1) = map tr_id (transfers s)" by simp
  from assms(1) have "transfer_id \<in> set (map tr_id (transfers s))"
    using get_transfer_None_iff [of s transfer_id] by simp
  then have "transfer_id \<in> set (map tr_id (transfers s1))" by (simp only: ids)
  then have "get_transfer_by_id s1 transfer_id \<noteq> None"
    using get_transfer_None_iff [of s1 transfer_id] by simp
  then obtain t1 where t1: "get_transfer_by_id s1 transfer_id = Some t1" by blast
  have "get_transfer_by_id (snd (update_transfer_by_id s1 transfer_id ?f)) transfer_id
        = Some (?f t1)"
    by (simp add: get_transfer_after_update t1)
  then show ?thesis by (simp add: run)
qed

theorem submit_stripe_transfer_absorbs_unexpected_witness:
  "get_transfer_by_id sample_store 1 = Some sample_transfer
   \<and> fst (submit_stripe_transfer_attempt unreachable_environment 9
            (reset_transfer_for_submission sample_store 1) 1 sample_payment_account 500
            ''payout'' None None None) = Inl (OtherException ''connection reset'')
   \<and> fst (submit_stripe_transfer unreachable_environment 9 sample_store 1
            sample_payment_account 500 ''payout'' None None None) = Inr ()
   \<and> (\<exists>t. get_transfer_by_id
             (snd (submit_stripe_transfer unreachable_environment 9 sample_store 1
                     sample_payment_account 500 ''payout'' None None None)) 1 = Some t
          \<and> tr_status t = ERROR
          \<and> tr_status_code t = Some (Transfer_status_code UNKNOWN_ERROR))"
proof -
  have h1: "get_transfer_by_id sample_store 1 = Some sample_transfer"
    by (simp add: sample_defs store_defs)
  have h2: "fst (submit_stripe_transfer_attempt unreachable_environment 9
            (reset_transfer_for_submission sample_store 1) 1 sample_payment_account 500
            ''payout'' None None None) = Inl (OtherException ''connection reset'')"
    by (simp add: sample_defs store_defs processor_defs Let_def)
  have h3: "\<forall>error_code. OtherException ''connection reset'' \<noteq> PayoutError error_code"
    by simp
  from submit_stripe_transfer_absorbs_unexpected [OF h1 h2 h3] h1 h2
  show ?thesis by simp
qed


subsection \<open>The managed-account balance check\<close>

lemma fetch_first_after_update:
  assumes "fetch_one (filter q rows) = Some m" and "p m" and "\<And>r. q (f r) = q r"
  shows "fetch_one (filter q (update_where p f rows)) = Some (f m)"
  using assms(1)
proof (induction rows)
  case Nil
  then show ?case by (simp add: fetch_one_def)
next
  case (Cons r rows)
  show ?case
  proof (cases "q r")
    case True
    with Cons.prems have "r = m" by (simp add: fetch_one_def)
    with True assms(2,3) show ?thesis by (simp add: update_where_def fetch_one_def)
  next
    case False
    with Cons.prems have "fetch_one (filter q rows) = Some m" by simp
    from Cons.IH [OF this] False assms(3) show ?thesis
      by (simp add: update_where_def)
  qed
qed

lemma get_mat_after_update:
  assumes "get_managed_account_transfer_by_transfer_id s transfer_id = Some m"
  shows "get_managed_account_transfer_by_transfer_id
           (snd (update_managed_account_transfer_by_id s (mat_id m)
                   (\<lambda>r. r\<lparr>mat_amount := x\<rparr>))) transfer_id
         = Some (m\<lparr>mat_amount := x\<rparr>)"
proof -
  have "fetch_one (filter (\<lambda>r. mat_transfer_id r = transfer_id)
          (update_where (\<lambda>r. mat_id r = mat_id m) (\<lambda>r. r\<lparr>mat_amount := x\<rparr>)
             (managed_account_transfers s)))
        = Some (m\<lparr>mat_amount := x\<rparr>)"
    using assms
    by (intro fetch_first_after_update)
       (simp_all add: get_managed_account_transfer_by_transfer_id_def)
  then show ?thesis
    by (simp add: get_managed_account_transfer_by_transfer_id_def
        update_managed_account_transfer_by_id_def)
qed

lemma get_mat_after_create:
  assumes "get_managed_account_transfer_by_transfer_id s transfer_id = None"
  shows "\<exists>m'. get_managed_account_transfer_by_transfer_id
           (snd (create_managed_account_transfer s amount transfer_id account_id currency))
           transfer_id = Some m'
         \<and> mat_amount m' = amount \<and> mat_payment_account_id m' = Some account_id
         \<and> managed_account_transfers
              (snd (create_managed_account_transfer s amount transfer_id account_id currency))
             = managed_account_transfers s @ [m']"
proof -
  from assms have "filter (\<lambda>r. mat_transfer_id r = transfer_id) (managed_account_transfers s) = []"
    by (simp add: get_managed_account_transfer_by_transfer_id_def fetch_one_None_iff)
  then show ?thesis
    by (simp add: get_managed_account_transfer_by_transfer_id_def
        create_managed_account_transfer_def Let_def fetch_one_def)
qed

lemma amount_still_needed_result:
  assumes "amount_still_needed env s payment_account amount = (Inr needed, s1)"
  shows "managed_account_transfers s1 = managed_account_transfers s
       \<and> (pa_entity payment_account = Some DASHER \<longrightarrow> needed = amount)
       \<and> (pa_entity payment_account \<noteq> Some DASHER \<longrightarrow>
            (\<exists>balance. stripe_get_account_balance env
                          (lookup_stripe_managed_account s payment_account) = Inr balance
                      \<and> needed = amount - balance))"
proof (cases "pa_entity payment_account = Some DASHER")
  case True
  with assms show ?thesis by (simp add: amount_still_needed_def)
next
  case False
  show ?thesis
  proof (cases "stripe_get_account_balance env (lookup_stripe_managed_account s payment_account)")
    case (Inl e)
    with assms False show ?thesis by (simp add: amount_still_needed_def Let_def)
  next
    case (Inr b)
    with assms False show ?thesis
      by (auto simp: amount_still_needed_def Let_def call_gateway_def)
  qed
qed

lemma validate_ok:
  assumes "validate_payment_account_of_managed_account_transfer s payment_account transfer_id mo
           = (Inr b, s2)"
  shows "s2 = s \<and> (\<forall>m. mo = Some m \<longrightarrow>
            \<not> truthy_int (mat_payment_account_id m)
            \<or> mat_payment_account_id m = Some (pa_id payment_account))"
proof (cases mo)
  case None
  with assms show ?thesis
    by (simp add: validate_payment_account_of_managed_account_transfer_def)
next
  case (Some m)
  show ?thesis
  proof (cases "truthy_int (mat_payment_account_id m)
               \<and> Some (pa_id payment_account) \<noteq> mat_payment_account_id m")
    case True
    with assms Some show ?thesis
      by (simp add: validate_payment_account_of_managed_account_transfer_def
          split: prod.splits)
  next
    case False
    with assms Some show ?thesis
      by (auto simp: validate_payment_account_of_managed_account_transfer_def)
  qed
qed

text \<open>
  C8, as the claim states it, fails. For a dasher account and a transfer of amount 300 the
  shortfall is 300, but a recorded top-up of 500 is left at 500: the check raises an
  existing amount to the shortfall and never lowers it to a smaller positive one.
\<close>

theorem balance_check_keeps_larger_amount:
  "pa_entity dasher_payment_account = Some DASHER
   \<and> fst (managed_account_balance_check sample_environment topped_up_store
            dasher_payment_account 1 300) = Inr ()
   \<and> map_option mat_amount
        (get_managed_account_transfer_by_transfer_id
           (snd (managed_account_balance_check sample_environment topped_up_store
                   dasher_payment_account 1 300)) 1) = Some 500
   \<and> max (300::int) 0 = 300"
  by (simp add: sample_defs store_defs processor_defs Let_def)

text \<open>
  C8, as amended. After \<^verbatim>\<open>managed_account_balance_check\<close> has completed without
  error for a transfer of amount A, with shortfall = A for a dasher account and
  A minus the gateway balance otherwise. When no record existed for the transfer id and
  the shortfall is positive, the check has appended one record, which holds the shortfall
  and references the payment account of the transfer; when none existed and the shortfall
  is not positive, none is created and the records are as before. When a record existed,
  it is that record with its amount set to the larger of its former amount and the
  shortfall when the shortfall is positive, and to 0 otherwise; no record is added, and
  the record references the payment account of the transfer or has no payment account
  set (the cross-check skips a record whose \<^verbatim>\<open>payment_account_id\<close> is unset). The amount
  held afterwards is never negative.
\<close>

theorem managed_account_balance_check_amount:
  assumes "managed_account_balance_check env s payment_account transfer_id amount = (Inr (), s')"
  shows "\<exists>needed.
     fst (amount_still_needed env s payment_account amount) = Inr needed
     \<and> (pa_entity payment_account = Some DASHER \<longrightarrow> needed = amount)
     \<and> (pa_entity payment_account \<noteq> Some DASHER \<longrightarrow>
          (\<exists>balance. stripe_get_account_balance env
                        (lookup_stripe_managed_account s payment_account) = Inr balance
                    \<and> needed = amount - balance))
     \<and> (case get_managed_account_transfer_by_transfer_id s transfer_id of
          None \<Rightarrow>
            if 0 < needed
            then \<exists>m'. get_managed_account_transfer_by_transfer_id s' transfer_id = Some m'
                      \<and> mat_amount m' = needed
                      \<and> mat_payment_account_id m' = Some (pa_id payment_account)
                      \<and> managed_account_transfers s' = managed_account_transfers s @ [m']
            else get_managed_account_transfer_by_transfer_id s' transfer_id = None
                 \<and> managed_account_transfers s' = managed_account_transfers s
        | Some m \<Rightarrow>
            get_managed_account_transfer_by_transfer_id s' transfer_id
              = Some (m\<lparr>mat_amount := if 0 < needed then max (mat_amount m) needed else 0\<rparr>)
            \<and> length (managed_account_transfers s') = length (managed_account_transfers s)
            \<and> (\<not> truthy_int (mat_payment_account_id m)
                \<or> mat_payment_account_id m = Some (pa_id payment_account)))
     \<and> (\<forall>m'. get_managed_account_transfer_by_transfer_id s' transfer_id = Some m'
              \<longrightarrow> 0 \<le> mat_amount m')"
proof -
  obtain r s1 where asn: "amount_still_needed env s payment_account amount = (r, s1)"
    by (cases "amount_still_needed env s payment_account amount")
  from assms asn obtain needed where r: "r = Inr needed"
    by (cases r) (simp_all add: managed_account_balance_check_def)
  note asn' = asn [unfolded r]
  from amount_still_needed_result [OF asn']
  have tbl: "managed_account_transfers s1 = managed_account_transfers s"
    and dasher: "pa_entity payment_account = Some DASHER \<longrightarrow> needed = amount"
    and other: "pa_entity payment_account \<noteq> Some DASHER \<longrightarrow>
            (\<exists>balance. stripe_get_account_balance env
                          (lookup_stripe_managed_account s payment_account) = Inr balance
                      \<and> needed = amount - balance)"
    by blast+
  let ?mo = "get_managed_account_transfer_by_transfer_id s1 transfer_id"
  let ?after = "get_managed_account_transfer_by_transfer_id s' transfer_id"
  have mo: "?mo = get_managed_account_transfer_by_transfer_id s transfer_id"
    by (simp add: get_managed_account_transfer_by_transfer_id_def tbl)
  obtain v s2 where val: "validate_payment_account_of_managed_account_transfer s1
                            payment_account transfer_id ?mo = (v, s2)"
    by (cases "validate_payment_account_of_managed_account_transfer s1
                            payment_account transfer_id ?mo")
  from assms asn' val obtain b where v: "v = Inr b"
    by (cases v) (simp_all add: managed_account_balance_check_def Let_def)
  from validate_ok [OF val [unfolded v]]
  have s2: "s2 = s1"
    and acct: "\<forall>m. ?mo = Some m \<longrightarrow> \<not> truthy_int (mat_payment_account_id m)
                  \<or> mat_payment_account_id m = Some (pa_id payment_account)"
    by blast+
  have main: "(case ?mo of
          None \<Rightarrow>
            if 0 < needed
            then \<exists>m'. ?after = Some m'
                      \<and> mat_amount m' = needed
                      \<and> mat_payment_account_id m' = Some (pa_id payment_account)
                      \<and> managed_account_transfers s' = managed_account_transfers s1 @ [m']
            else ?after = None
                 \<and> managed_account_transfers s' = managed_account_transfers s1
        | Some m \<Rightarrow>
            ?after
              = Some (m\<lparr>mat_amount := if 0 < needed then max (mat_amount m) needed else 0\<rparr>)
            \<and> length (managed_account_transfers s') = length (managed_account_transfers s1)
            \<and> (\<not> truthy_int (mat_payment_account_id m)
                \<or> mat_payment_account_id m = Some (pa_id payment_account)))
     \<and> (\<forall>m'. ?after = Some m' \<longrightarrow> 0 \<le> mat_amount m')"
  proof (cases ?mo)
    case None
    show ?thesis
    proof (cases "0 < needed")
      case True
      let ?cur = "case get_country_shortname env s1 payment_account of
                    None \<Rightarrow> None
                  | Some c \<Rightarrow> if c = [] then None else Some (get_currency_code env c)"
      from assms asn' val v s2 None True
      have s': "s' = snd (create_managed_account_transfer s1 needed transfer_id
                            (pa_id payment_account) ?cur)"
        by (simp add: managed_account_balance_check_def Let_def)
      from get_mat_after_create [OF None, of needed "pa_id payment_account" ?cur]
      obtain m' where a: "?after = Some m'"
        and b: "mat_amount m' = needed"
        and c: "mat_payment_account_id m' = Some (pa_id payment_account)"
        and d: "managed_account_transfers s' = managed_account_transfers s1 @ [m']"
        unfolding s' by blast
      from a b c d True show ?thesis by (simp add: None)
    next
      case False
      from assms asn' val v s2 None False have "s' = s1"
        by (simp add: managed_account_balance_check_def Let_def)
      with None False show ?thesis by simp
    qed
  next
    case (Some m)
    from acct Some have ok: "\<not> truthy_int (mat_payment_account_id m)
                  \<or> mat_payment_account_id m = Some (pa_id payment_account)" by simp
    show ?thesis
    proof (cases "0 < needed")
      case True
      show ?thesis
      proof (cases "mat_amount m < needed")
        case lt: True
        from assms asn' val v s2 Some True lt
        have s': "s' = snd (update_managed_account_transfer_by_id s1 (mat_id m)
                              (\<lambda>r. r\<lparr>mat_amount := needed\<rparr>))"
          by (simp add: managed_account_balance_check_def Let_def)
        from get_mat_after_update [OF Some, of needed]
        have a: "?after = Some (m\<lparr>mat_amount := needed\<rparr>)"
          unfolding s' .
        have mx: "max (mat_amount m) needed = needed" using lt by simp
        have len: "length (managed_account_transfers s') = length (managed_account_transfers s1)"
          by (simp add: s' update_managed_account_transfer_by_id_def length_update_where)
        from a len ok True show ?thesis by (simp add: Some mx)
      next
        case ge: False
        from assms asn' val v s2 Some True ge have same: "s' = s1"
          by (simp add: managed_account_balance_check_def Let_def)
        have mx: "max (mat_amount m) needed = mat_amount m" using ge by simp
        have keep: "m\<lparr>mat_amount := mat_amount m\<rparr> = m" by simp
        have pos: "0 \<le> mat_amount m" using ge True by simp
        from ok True pos show ?thesis by (simp add: Some same mx keep)
      qed
    next
      case False
      from assms asn' val v s2 Some False
      have s': "s' = snd (update_managed_account_transfer_by_id s1 (mat_id m)
                            (\<lambda>r. r\<lparr>mat_amount := 0\<rparr>))"
        by (simp add: managed_account_balance_check_def Let_def)
      from get_mat_after_update [OF Some, of 0]
      have a: "?after = Some (m\<lparr>mat_amount := 0\<rparr>)"
        unfolding s' .
      have len: "length (managed_account_transfers s') = length (managed_account_transfers s1)"
        by (simp add: s' update_managed_account_transfer_by_id_def length_update_where)
      from a len ok False show ?thesis by (simp add: Some)
    qed
  qed
  have "fst (amount_still_needed env s payment_account amount) = Inr needed"
    by (simp add: asn')
  with dasher other main show ?thesis unfolding mo tbl by blast
qed

theorem managed_account_balance_check_amount_witness:
  "managed_account_balance_check sample_environment sample_store sample_payment_account 1 500
     = (Inr (), snd (managed_account_balance_check sample_environment sample_store
                       sample_payment_account 1 500))
   \<and> get_managed_account_transfer_by_transfer_id sample_store 1 = None
   \<and> (\<exists>m'. get_managed_account_transfer_by_transfer_id
               (snd (managed_account_balance_check sample_environment sample_store
                       sample_payment_account 1 500)) 1 = Some m'
            \<and> mat_amount m' = 500
            \<and> mat_payment_account_id m' = Some (pa_id sample_payment_account)
            \<and> managed_account_transfers
                 (snd (managed_account_balance_check sample_environment sample_store
                         sample_payment_account 1 500)) = [m'])"
proof -
  have run: "managed_account_balance_check sample_environment sample_store
               sample_payment_account 1 500
             = (Inr (), snd (managed_account_balance_check sample_environment sample_store
                               sample_payment_account 1 500))"
    by (simp add: sample_defs store_defs processor_defs Let_def)
  have before: "get_managed_account_transfer_by_transfer_id sample_store 1 = None"
    by (simp add: sample_defs store_defs)
  have rows: "managed_account_transfers sample_store = []"
    by (simp add: sample_defs)
  have needed: "fst (amount_still_needed sample_environment sample_store
                       sample_payment_account 500) = Inr 500"
    by (simp add: sample_defs store_defs processor_defs Let_def)
  from managed_account_balance_check_amount [OF run]
  have "\<exists>m'. get_managed_account_transfer_by_transfer_id
               (snd (managed_account_balance_check sample_environment sample_store
                       sample_payment_account 1 500)) 1 = Some m'
            \<and> mat_amount m' = 500
            \<and> mat_payment_account_id m' = Some (pa_id sample_payment_account)
            \<and> managed_account_transfers
                 (snd (managed_account_balance_check sample_environment sample_store
                         sample_payment_account 1 500)) = [m']"
    by (simp add: needed before rows)
  with run before show ?thesis by blast
qed

subsection \<open>The retry guard\<close>

text \<open>
  C9. The code does not do what the claim states. A retry of a transfer whose status is
  \<^verbatim>\<open>FAILED\<close>, on an account with transfers switched off, is refused with
  \<^verbatim>\<open>TRANSFER_INVALID_STATE\<close> and not with \<^verbatim>\<open>TRANSFER_DISABLED_ERROR\<close>, and the
  status of the transfer is rewritten to \<^verbatim>\<open>ERROR\<close>; nothing is submitted.
  \<^verbatim>\<open>_execute\<close> binds \<^verbatim>\<open>transactions\<close> to the empty list and so leaves through the
  reconciliation step, before the guard; no call at all raises
  \<^verbatim>\<open>TRANSFER_DISABLED_ERROR\<close>.
\<close>

theorem execute_retry_failed_invalid_state:
  "map tr_status (transfers failed_disabled_store) = [FAILED]
   \<and> map pa_transfers_enabled (payment_accounts failed_disabled_store) = [Some False]
   \<and> req_retry retry_request = Some True
   \<and> fst (execute sample_environment 9 retry_request failed_disabled_store)
       = Inl (PayoutError TRANSFER_INVALID_STATE)
   \<and> map tr_status (transfers (snd (execute sample_environment 9 retry_request
                                      failed_disabled_store))) = [ERROR]
   \<and> stripe_transfers (snd (execute sample_environment 9 retry_request
                              failed_disabled_store)) = []
   \<and> gateway_calls (snd (execute sample_environment 9 retry_request
                            failed_disabled_store)) = []
   \<and> (\<forall>env now request s.
         fst (execute env now request s) \<noteq> Inl (PayoutError TRANSFER_DISABLED_ERROR))"
proof -
  have run: "execute sample_environment 9 retry_request failed_disabled_store
             = (Inl (PayoutError TRANSFER_INVALID_STATE),
                failed_disabled_store
                  \<lparr>transfers :=
                     [sample_transfer
                        \<lparr>tr_status := ERROR,
                         tr_status_code := Some (Transfer_status_code ERROR_INVALID_STATE)\<rparr>]\<rparr>)"
    by (simp add: execute_def Let_def truthy_int_def sample_defs store_defs)
  have never: "fst (execute env now request s) \<noteq> Inl (PayoutError TRANSFER_DISABLED_ERROR)"
    for env now request s
    by (simp add: execute_def Let_def split: option.splits)
  have before: "map tr_status (transfers failed_disabled_store) = [FAILED]
                \<and> map pa_transfers_enabled (payment_accounts failed_disabled_store)
                    = [Some False]
                \<and> req_retry retry_request = Some True
                \<and> stripe_transfers failed_disabled_store = []
                \<and> gateway_calls failed_disabled_store = []"
    by (simp add: sample_defs)
  have after: "fst (execute sample_environment 9 retry_request failed_disabled_store)
       = Inl (PayoutError TRANSFER_INVALID_STATE)
   \<and> map tr_status (transfers (snd (execute sample_environment 9 retry_request
                                      failed_disabled_store))) = [ERROR]
   \<and> stripe_transfers (snd (execute sample_environment 9 retry_request
                              failed_disabled_store)) = []
   \<and> gateway_calls (snd (execute sample_environment 9 retry_request
                            failed_disabled_store)) = []"
    unfolding run by (simp add: sample_defs)
  from never before after show ?thesis by simp
qed

end
